theory Spec2Isabelle
  imports Main "HOL-Library.Log_Nat" "HOL-Library.AList" "HOL-Library.Sublist"
begin

section \<open>Python values\<close>

text \<open>
  The service is dynamically typed: request bodies, the external food database's JSON
  answers and the documents of the store are all Python values. A dictionary is an
  association list in insertion order whose lookup is \<open>map_of\<close>; a float is a finite
  real or one of the three special values; an \<open>ObjectId\<close> is the store's opaque
  identifier.
\<close>

datatype pyfloat = Fin real | PosInf | NegInf | NaN

datatype pyval =
    PNone
  | PBool bool
  | PInt int
  | PFloat pyfloat
  | PStr string
  | PList "pyval list"
  | PDict "(string \<times> pyval) list"
  | PObjectId nat

type_synonym pydict = "(string \<times> pyval) list"

datatype py_exn =
    AttributeError | TypeError | ValueError | OverflowError | NotImplementedError
  | RequestError | StoreError

text \<open>Truth value testing, as \<open>if x\<close>, \<open>not x\<close> and \<open>x or y\<close> use it.\<close>

fun truthy :: "pyval \<Rightarrow> bool" where
  "truthy PNone = False"
| "truthy (PBool b) = b"
| "truthy (PInt n) = (n \<noteq> 0)"
| "truthy (PFloat (Fin x)) = (x \<noteq> 0)"
| "truthy (PFloat PosInf) = True"
| "truthy (PFloat NegInf) = True"
| "truthy (PFloat NaN) = True"
| "truthy (PStr s) = (s \<noteq> [])"
| "truthy (PList xs) = (xs \<noteq> [])"
| "truthy (PDict kvs) = (kvs \<noteq> [])"
| "truthy (PObjectId i) = True"

definition py_or :: "pyval \<Rightarrow> pyval \<Rightarrow> pyval" where
  "py_or a b = (if truthy a then a else b)"

text \<open>\<open>d.get(k, dflt)\<close> on a dictionary; \<open>d.get(k)\<close> is \<open>dict_get d k PNone\<close>.\<close>

definition dict_get :: "pydict \<Rightarrow> string \<Rightarrow> pyval \<Rightarrow> pyval" where
  "dict_get d k dflt = (case map_of d k of None \<Rightarrow> dflt | Some v \<Rightarrow> v)"

text \<open>
  \<open>float(n)\<close> of an integer rounds to the nearest double (53 significant bits, ties to
  even) and raises \<open>OverflowError\<close> when the result is not below \<open>2 ^ 1024\<close>.
\<close>

definition round_double :: "int \<Rightarrow> int" where
  "round_double n =
     (let a = \<bar>n\<bar>; e = bitlen a - 53 in
      if e \<le> 0 then n
      else
        (let q = a div 2 ^ nat e; r = a mod 2 ^ nat e; h = 2 ^ nat (e - 1);
             q' = (if h < r \<or> (r = h \<and> odd q) then q + 1 else q)
         in sgn n * q' * 2 ^ nat e))"

definition float_of_int :: "int \<Rightarrow> py_exn + pyfloat" where
  "float_of_int n =
     (let r = round_double n in
      if 2 ^ 1024 \<le> \<bar>r\<bar> then Inl OverflowError else Inr (Fin (of_int r)))"

text \<open>
  \<open>float(x)\<close>. How a string is read as a float is left to the parameter \<open>sf\<close>
  (\<open>None\<close> where the builtin raises \<open>ValueError\<close>).
\<close>

fun py_float :: "(string \<Rightarrow> pyfloat option) \<Rightarrow> pyval \<Rightarrow> py_exn + pyfloat" where
  "py_float sf (PFloat x) = Inr x"
| "py_float sf (PInt n) = float_of_int n"
| "py_float sf (PBool b) = Inr (Fin (if b then 1 else 0))"
| "py_float sf (PStr s) = (case sf s of None \<Rightarrow> Inl ValueError | Some x \<Rightarrow> Inr x)"
| "py_float sf PNone = Inl TypeError"
| "py_float sf (PList xs) = Inl TypeError"
| "py_float sf (PDict kvs) = Inl TypeError"
| "py_float sf (PObjectId i) = Inl TypeError"

text \<open>Sequencing of steps that may raise: the first exception ends the computation.\<close>

definition then_exn :: "'e + 'a \<Rightarrow> ('a \<Rightarrow> 'e + 'b) \<Rightarrow> 'e + 'b" where
  "then_exn r f = (case r of Inl e \<Rightarrow> Inl e | Inr x \<Rightarrow> f x)"

section \<open>Errors\<close>

text \<open>
  A validation error names the place of a field (\<open>loc\<close>) and the constraint it violates.
  \<open>EmptyText\<close> is the violation of the data model's "non-empty text"; no validator of
  schemas.py reports it.
  A request ends in a status 422 carrying the validation errors, or in a status 500
  carrying an exception. \<open>NotModelled\<close> is the one outcome that is not the program's:
  a query whose \<open>$regex\<close> pattern lies beyond the patterns interpreted below.
\<close>

datatype loc_part = Key string | Idx nat

datatype violation =
    Missing | NoneNotAllowed | GreaterThanEqual real | LessThanEqual real | DateParsing
  | EmptyText

type_synonym verror = "loc_part list \<times> violation"

datatype api_error = HTTP500 py_exn | HTTP422 "verror list" | NotModelled

section \<open>External nutrition normalizer (main.py, search_food and food_by_barcode)\<close>

text \<open>
  Both endpoints build the item of a product record \<open>p\<close> with the same statements
  (lines 180--191 and 204--215). \<open>p.get\<close> and \<open>nutriments.get\<close> raise
  \<open>AttributeError\<close> on anything but a dictionary.
\<close>

definition resolve_calories :: "pydict \<Rightarrow> pyval" where
  "resolve_calories nutriments =
     py_or (dict_get nutriments ''energy-kcal_100g'' PNone)
           (dict_get nutriments ''energy-kcal_serving'' PNone)"

definition macro_of :: "(string \<Rightarrow> pyfloat option) \<Rightarrow> pydict \<Rightarrow> string \<Rightarrow> py_exn + pyfloat" where
  "macro_of sf nutriments k = py_float sf (py_or (dict_get nutriments k (PInt 0)) (PInt 0))"

fun normalize_product :: "(string \<Rightarrow> pyfloat option) \<Rightarrow> pyval \<Rightarrow> py_exn + pyval" where
  "normalize_product sf (PDict p) =
     (case dict_get p ''nutriments'' (PDict []) of
        PDict nutriments \<Rightarrow>
          (let calories = resolve_calories nutriments in
           then_exn (if calories \<noteq> PNone
                     then then_exn (py_float sf calories) (\<lambda>f. Inr (PFloat f))
                     else Inr (PInt 0)) (\<lambda>cal.
           then_exn (macro_of sf nutriments ''proteins_100g'') (\<lambda>protein.
           then_exn (macro_of sf nutriments ''carbohydrates_100g'') (\<lambda>carbs.
           then_exn (macro_of sf nutriments ''fat_100g'') (\<lambda>fat.
             Inr (PDict
               [(''barcode'', dict_get p ''code'' PNone),
                (''name'', py_or (dict_get p ''product_name'' PNone)
                             (py_or (dict_get p ''generic_name'' PNone) (PStr ''Unknown''))),
                (''brand'', dict_get p ''brands'' PNone),
                (''calories'', cal),
                (''protein'', PFloat protein),
                (''carbs'', PFloat carbs),
                (''fat'', PFloat fat),
                (''serving_size'', dict_get p ''serving_size'' PNone)]))))))
      | other \<Rightarrow> Inl AttributeError)"
| "normalize_product sf other = Inl AttributeError"

text \<open>
  \<open>food_by_barcode\<close>: \<open>resp\<close> is the outcome of the request and of decoding its body
  (\<open>Inl\<close> when either raises). Every exception becomes a status 500.
\<close>

definition food_by_barcode ::
  "(string \<Rightarrow> pyfloat option) \<Rightarrow> py_exn + pyval \<Rightarrow> api_error + pyval" where
  "food_by_barcode sf resp =
     (case then_exn resp (\<lambda>data.
             case data of
               PDict d \<Rightarrow> normalize_product sf (py_or (dict_get d ''product'' PNone) (PDict []))
             | other \<Rightarrow> Inl AttributeError) of
        Inl e \<Rightarrow> Inl (HTTP500 e)
      | Inr item \<Rightarrow> Inr item)"

text \<open>\<open>for p in products\<close>: what iterating a value yields.\<close>

fun py_iter :: "pyval \<Rightarrow> py_exn + pyval list" where
  "py_iter (PList xs) = Inr xs"
| "py_iter (PStr s) = Inr (map (\<lambda>c. PStr [c]) s)"
| "py_iter (PDict kvs) = Inr (map (\<lambda>kv. PStr (fst kv)) kvs)"
| "py_iter other = Inl TypeError"

fun normalize_all :: "(string \<Rightarrow> pyfloat option) \<Rightarrow> pyval list \<Rightarrow> py_exn + pyval list" where
  "normalize_all sf [] = Inr []"
| "normalize_all sf (p # ps) =
     then_exn (normalize_product sf p) (\<lambda>item.
     then_exn (normalize_all sf ps) (\<lambda>items. Inr (item # items)))"

definition search_food ::
  "(string \<Rightarrow> pyfloat option) \<Rightarrow> py_exn + pyval \<Rightarrow> api_error + pyval" where
  "search_food sf resp =
     (case then_exn resp (\<lambda>data.
             case data of
               PDict d \<Rightarrow>
                 then_exn (py_iter (dict_get d ''products'' (PList []))) (\<lambda>products.
                 then_exn (normalize_all sf products) (\<lambda>results.
                   Inr (PDict [(''results'', PList results)])))
             | other \<Rightarrow> Inl AttributeError) of
        Inl e \<Rightarrow> Inl (HTTP500 e)
      | Inr body \<Rightarrow> Inr body)"

definition placeholder_item :: pyval where
  "placeholder_item = PDict
     [(''barcode'', PNone), (''name'', PStr ''Unknown''), (''brand'', PNone),
      (''calories'', PInt 0), (''protein'', PFloat (Fin 0)), (''carbs'', PFloat (Fin 0)),
      (''fat'', PFloat (Fin 0)), (''serving_size'', PNone)]"

section \<open>Public form of a stored document (main.py, to_public)\<close>

text \<open>
  \<open>doc\<close> is a dictionary or \<open>None\<close>; \<open>pstr\<close> is the builtin \<open>str\<close>. The falsy
  documents (\<open>None\<close> and the empty dictionary) are returned as they are. Otherwise the
  copy loses \<open>_id\<close> and gets \<open>id\<close>: an assignment to an existing key keeps its place,
  a new key goes last.
\<close>

definition to_public :: "(pyval \<Rightarrow> string) \<Rightarrow> pydict option \<Rightarrow> pydict option" where
  "to_public pstr doc =
     (case doc of
        None \<Rightarrow> None
      | Some d \<Rightarrow>
          if d = [] then Some d
          else (case map_of d ''_id'' of
                  None \<Rightarrow> Some d
                | Some v \<Rightarrow> Some (AList.update ''id'' (PStr (pstr v)) (AList.delete ''_id'' d))))"

definition has_field :: "pydict option \<Rightarrow> string \<Rightarrow> bool" where
  "has_field doc k = (case doc of None \<Rightarrow> False | Some d \<Rightarrow> map_of d k \<noteq> None)"

definition field_of :: "pydict option \<Rightarrow> string \<Rightarrow> pyval option" where
  "field_of doc k = (case doc of None \<Rightarrow> None | Some d \<Rightarrow> map_of d k)"

section \<open>Schemas (schemas.py)\<close>

text \<open>
  A payload gives each field of a model as absent, as \<open>null\<close>, or as a value of the
  field's declared type. Numbers of type \<open>float\<close> are the reals they denote. A date
  field is given as text; how the library reads a date from text is the parameter \<open>pd\<close>
  (\<open>None\<close> where the text is no date), and a date is kept as its ISO-8601 text. An error
  names the place of the field and the constraint it violates; the errors of all fields
  are reported together, in the order of the fields.
\<close>

datatype 'a arg = Absent | Null | Given 'a

datatype date = IsoDate string

text \<open>The numeric constraints \<open>ge\<close> and \<open>le\<close> of \<open>Field\<close>.\<close>

definition check_int :: "int option \<Rightarrow> int option \<Rightarrow> int \<Rightarrow> violation list" where
  "check_int ge le v =
     (case ge of
        Some lo \<Rightarrow> if v < lo then [GreaterThanEqual (of_int lo)] else []
      | None \<Rightarrow> [])
     @ (case le of
        Some hi \<Rightarrow> if hi < v then [LessThanEqual (of_int hi)] else []
      | None \<Rightarrow> [])"

definition check_float :: "real option \<Rightarrow> real \<Rightarrow> violation list" where
  "check_float ge v =
     (case ge of
        Some lo \<Rightarrow> if v < lo then [GreaterThanEqual lo] else []
      | None \<Rightarrow> [])"

definition unconstrained :: "'a \<Rightarrow> violation list" where
  "unconstrained v = []"

text \<open>
  \<open>required\<close>: a field declared \<open>Field(...)\<close> of a type that is not \<open>Optional\<close>.
  \<open>defaulted\<close>: a field with a default, of a type that is not \<open>Optional\<close>.
  \<open>optional\<close>: an \<open>Optional\<close> field with a default (\<open>null\<close> is accepted and stays
  \<open>None\<close>; the default is not validated).
\<close>

definition required ::
  "loc_part list \<Rightarrow> ('a \<Rightarrow> violation list) \<Rightarrow> 'a arg \<Rightarrow> verror list + 'a" where
  "required loc chk a =
     (case a of
        Absent \<Rightarrow> Inl [(loc, Missing)]
      | Null \<Rightarrow> Inl [(loc, NoneNotAllowed)]
      | Given v \<Rightarrow> (case chk v of [] \<Rightarrow> Inr v | es \<Rightarrow> Inl (map (Pair loc) es)))"

definition defaulted ::
  "loc_part list \<Rightarrow> ('a \<Rightarrow> violation list) \<Rightarrow> 'a \<Rightarrow> 'a arg \<Rightarrow> verror list + 'a" where
  "defaulted loc chk dflt a =
     (case a of
        Absent \<Rightarrow> Inr dflt
      | Null \<Rightarrow> Inl [(loc, NoneNotAllowed)]
      | Given v \<Rightarrow> (case chk v of [] \<Rightarrow> Inr v | es \<Rightarrow> Inl (map (Pair loc) es)))"

definition optional ::
  "loc_part list \<Rightarrow> ('a \<Rightarrow> violation list) \<Rightarrow> 'a option \<Rightarrow> 'a arg \<Rightarrow> verror list + 'a option" where
  "optional loc chk dflt a =
     (case a of
        Absent \<Rightarrow> Inr dflt
      | Null \<Rightarrow> Inr None
      | Given v \<Rightarrow> (case chk v of [] \<Rightarrow> Inr (Some v) | es \<Rightarrow> Inl (map (Pair loc) es)))"

text \<open>A required field of type \<open>date\<close>.\<close>

definition date_field ::
  "(string \<Rightarrow> date option) \<Rightarrow> loc_part list \<Rightarrow> string arg \<Rightarrow> verror list + date" where
  "date_field pd loc a =
     (case a of
        Absent \<Rightarrow> Inl [(loc, Missing)]
      | Null \<Rightarrow> Inl [(loc, NoneNotAllowed)]
      | Given s \<Rightarrow> (case pd s of None \<Rightarrow> Inl [(loc, DateParsing)] | Some d \<Rightarrow> Inr d))"

text \<open>
  An instance of \<open>pd\<close> for the examples: the calendar dates written \<open>YYYY-MM-DD\<close>.
\<close>

definition digit_of :: "char \<Rightarrow> nat option" where
  "digit_of c =
     map_of (zip ''0123456789'' [0, 1, 2, 3, 4, 5, 6, 7, 8, 9]) c"

fun number_of :: "nat \<Rightarrow> string \<Rightarrow> nat option" where
  "number_of acc [] = Some acc"
| "number_of acc (c # cs) =
     (case digit_of c of None \<Rightarrow> None | Some d \<Rightarrow> number_of (10 * acc + d) cs)"

definition days_in_month :: "nat \<Rightarrow> nat \<Rightarrow> nat" where
  "days_in_month y m =
     (if m = 2 then (if y mod 4 = 0 \<and> (y mod 100 \<noteq> 0 \<or> y mod 400 = 0) then 29 else 28)
      else if m = 4 \<or> m = 6 \<or> m = 9 \<or> m = 11 then 30
      else 31)"

definition iso_date :: "string \<Rightarrow> date option" where
  "iso_date s =
     (if length s = 10 \<and> s ! 4 = CHR ''-'' \<and> s ! 7 = CHR ''-''
      then (case (number_of 0 (take 4 s), number_of 0 (take 2 (drop 5 s)),
                  number_of 0 (drop 8 s)) of
              (Some y, Some m, Some d) \<Rightarrow>
                if 1 \<le> y \<and> 1 \<le> m \<and> m \<le> 12 \<and> 1 \<le> d \<and> d \<le> days_in_month y m
                then Some (IsoDate s) else None
            | other \<Rightarrow> None)
      else None)"

definition errors_of :: "verror list + 'a \<Rightarrow> verror list" where
  "errors_of r = (case r of Inl es \<Rightarrow> es | Inr v \<Rightarrow> [])"

text \<open>
  A model is built from its fields in the order of their declaration: when every field
  is valid the constructor \<open>acc\<close> gets the next value, otherwise the errors found so far
  and those of the next field are kept.
\<close>

definition with_field ::
  "verror list + ('a \<Rightarrow> 'b) \<Rightarrow> verror list + 'a \<Rightarrow> verror list + 'b" where
  "with_field acc r =
     (case (acc, r) of
        (Inr f, Inr v) \<Rightarrow> Inr (f v)
      | other \<Rightarrow> Inl (errors_of acc @ errors_of r))"

subsection \<open>Exercise\<close>

record exercise_in =
  in_name :: "string arg"
  in_sets :: "int arg"
  in_reps :: "int arg"
  in_weight :: "real arg"
  in_notes :: "string arg"

record exercise =
  ex_name :: string
  ex_sets :: int
  ex_reps :: int
  ex_weight :: "real option"
  ex_notes :: "string option"

definition validate_exercise :: "loc_part list \<Rightarrow> exercise_in \<Rightarrow> verror list + exercise" where
  "validate_exercise loc p =
     with_field (with_field (with_field (with_field (with_field
       (Inr (\<lambda>n s r w t.
          \<lparr>ex_name = n, ex_sets = s, ex_reps = r, ex_weight = w, ex_notes = t\<rparr>))
       (required (loc @ [Key ''name'']) unconstrained (in_name p)))
       (required (loc @ [Key ''sets'']) (check_int (Some 1) (Some 20)) (in_sets p)))
       (required (loc @ [Key ''reps'']) (check_int (Some 1) (Some 100)) (in_reps p)))
       (optional (loc @ [Key ''weight'']) (check_float (Some 0)) None (in_weight p)))
       (optional (loc @ [Key ''notes'']) unconstrained None (in_notes p))"

text \<open>A \<open>List[Exercise]\<close>: the items are validated in order, each under its index.\<close>

fun validate_exercises ::
  "loc_part list \<Rightarrow> nat \<Rightarrow> exercise_in list \<Rightarrow> verror list + exercise list" where
  "validate_exercises loc i [] = Inr []"
| "validate_exercises loc i (p # ps) =
     with_field (with_field (Inr Cons) (validate_exercise (loc @ [Idx i]) p))
       (validate_exercises loc (Suc i) ps)"

definition exercise_list ::
  "loc_part list \<Rightarrow> exercise_in list arg \<Rightarrow> verror list + exercise list" where
  "exercise_list loc a =
     (case a of
        Absent \<Rightarrow> Inr []
      | Null \<Rightarrow> Inl [(loc, NoneNotAllowed)]
      | Given ps \<Rightarrow> validate_exercises loc 0 ps)"

subsection \<open>WorkoutTemplate and WorkoutSession\<close>

record workout_template_in =
  in_title :: "string arg"
  in_description :: "string arg"
  in_exercises :: "exercise_in list arg"
  in_level :: "string arg"

record workout_template =
  wt_title :: string
  wt_description :: "string option"
  wt_exercises :: "exercise list"
  wt_level :: "string option"

definition validate_workout_template :: "workout_template_in \<Rightarrow> verror list + workout_template" where
  "validate_workout_template p =
     with_field (with_field (with_field (with_field
       (Inr (\<lambda>t d e l.
          \<lparr>wt_title = t, wt_description = d, wt_exercises = e, wt_level = l\<rparr>))
       (required [Key ''title''] unconstrained (in_title p)))
       (optional [Key ''description''] unconstrained None (in_description p)))
       (exercise_list [Key ''exercises''] (in_exercises p)))
       (optional [Key ''level''] unconstrained None (in_level p))"

record workout_session_in =
  in_user_id :: "string arg"
  in_session_date :: "string arg"
  in_session_title :: "string arg"
  in_session_exercises :: "exercise_in list arg"
  in_session_notes :: "string arg"

record workout_session =
  ws_user_id :: string
  ws_session_date :: date
  ws_title :: string
  ws_exercises :: "exercise list"
  ws_notes :: "string option"

definition validate_workout_session ::
  "(string \<Rightarrow> date option) \<Rightarrow> workout_session_in \<Rightarrow> verror list + workout_session" where
  "validate_workout_session pd p =
     with_field (with_field (with_field (with_field (with_field
       (Inr (\<lambda>u d t e n.
          \<lparr>ws_user_id = u, ws_session_date = d, ws_title = t, ws_exercises = e,
           ws_notes = n\<rparr>))
       (required [Key ''user_id''] unconstrained (in_user_id p)))
       (date_field pd [Key ''session_date''] (in_session_date p)))
       (required [Key ''title''] unconstrained (in_session_title p)))
       (exercise_list [Key ''exercises''] (in_session_exercises p)))
       (optional [Key ''notes''] unconstrained None (in_session_notes p))"

subsection \<open>FoodItem and FoodLog\<close>

record food_item_in =
  in_barcode :: "string arg"
  in_item_name :: "string arg"
  in_brand :: "string arg"
  in_calories :: "real arg"
  in_protein :: "real arg"
  in_carbs :: "real arg"
  in_fat :: "real arg"
  in_serving_size :: "string arg"

record food_item =
  fi_barcode :: "string option"
  fi_name :: string
  fi_brand :: "string option"
  fi_calories :: real
  fi_protein :: "real option"
  fi_carbs :: "real option"
  fi_fat :: "real option"
  fi_serving_size :: "string option"

definition validate_food_item :: "loc_part list \<Rightarrow> food_item_in \<Rightarrow> verror list + food_item" where
  "validate_food_item loc p =
     with_field (with_field (with_field (with_field (with_field (with_field (with_field
     (with_field
       (Inr (\<lambda>b n r c pr cb f s.
          \<lparr>fi_barcode = b, fi_name = n, fi_brand = r, fi_calories = c, fi_protein = pr,
           fi_carbs = cb, fi_fat = f, fi_serving_size = s\<rparr>))
       (optional (loc @ [Key ''barcode'']) unconstrained None (in_barcode p)))
       (required (loc @ [Key ''name'']) unconstrained (in_item_name p)))
       (optional (loc @ [Key ''brand'']) unconstrained None (in_brand p)))
       (required (loc @ [Key ''calories'']) (check_float (Some 0)) (in_calories p)))
       (optional (loc @ [Key ''protein'']) (check_float (Some 0)) (Some 0) (in_protein p)))
       (optional (loc @ [Key ''carbs'']) (check_float (Some 0)) (Some 0) (in_carbs p)))
       (optional (loc @ [Key ''fat'']) (check_float (Some 0)) (Some 0) (in_fat p)))
       (optional (loc @ [Key ''serving_size'']) unconstrained None (in_serving_size p))"

record food_log_in =
  in_log_user_id :: "string arg"
  in_log_date :: "string arg"
  in_meal :: "string arg"
  in_item :: "food_item_in arg"
  in_quantity :: "real arg"

record food_log =
  fl_user_id :: string
  fl_log_date :: date
  fl_meal :: "string option"
  fl_item :: food_item
  fl_quantity :: real

definition food_item_field :: "loc_part list \<Rightarrow> food_item_in arg \<Rightarrow> verror list + food_item" where
  "food_item_field loc a =
     (case a of
        Absent \<Rightarrow> Inl [(loc, Missing)]
      | Null \<Rightarrow> Inl [(loc, NoneNotAllowed)]
      | Given p \<Rightarrow> validate_food_item loc p)"

definition validate_food_log ::
  "(string \<Rightarrow> date option) \<Rightarrow> food_log_in \<Rightarrow> verror list + food_log" where
  "validate_food_log pd p =
     with_field (with_field (with_field (with_field (with_field
       (Inr (\<lambda>u d m i q.
          \<lparr>fl_user_id = u, fl_log_date = d, fl_meal = m, fl_item = i, fl_quantity = q\<rparr>))
       (required [Key ''user_id''] unconstrained (in_log_user_id p)))
       (date_field pd [Key ''log_date''] (in_log_date p)))
       (optional [Key ''meal''] unconstrained (Some ''unspecified'') (in_meal p)))
       (food_item_field [Key ''item''] (in_item p)))
       (defaulted [Key ''quantity''] (check_float (Some (1 / 10))) 1 (in_quantity p))"

section \<open>Stored form of the entities\<close>

text \<open>
  Modelled from the spec: how \<open>create_document\<close> (database.py, not among the sources)
  turns a validated entity into a document. The document carries the entity's fields
  under their names, an unset optional field as \<open>None\<close> and a date as its ISO-8601 text.
\<close>

definition dump_opt :: "('a \<Rightarrow> pyval) \<Rightarrow> 'a option \<Rightarrow> pyval" where
  "dump_opt f v = (case v of None \<Rightarrow> PNone | Some x \<Rightarrow> f x)"

definition dump_float :: "real \<Rightarrow> pyval" where
  "dump_float x = PFloat (Fin x)"

definition dump_date :: "date \<Rightarrow> pyval" where
  "dump_date d = (case d of IsoDate s \<Rightarrow> PStr s)"

definition dump_exercise :: "exercise \<Rightarrow> pydict" where
  "dump_exercise e =
     [(''name'', PStr (ex_name e)), (''sets'', PInt (ex_sets e)), (''reps'', PInt (ex_reps e)),
      (''weight'', dump_opt dump_float (ex_weight e)), (''notes'', dump_opt PStr (ex_notes e))]"

definition dump_workout_template :: "workout_template \<Rightarrow> pydict" where
  "dump_workout_template t =
     [(''title'', PStr (wt_title t)), (''description'', dump_opt PStr (wt_description t)),
      (''exercises'', PList (map (\<lambda>e. PDict (dump_exercise e)) (wt_exercises t))),
      (''level'', dump_opt PStr (wt_level t))]"

definition dump_workout_session :: "workout_session \<Rightarrow> pydict" where
  "dump_workout_session w =
     [(''user_id'', PStr (ws_user_id w)), (''session_date'', dump_date (ws_session_date w)),
      (''title'', PStr (ws_title w)),
      (''exercises'', PList (map (\<lambda>e. PDict (dump_exercise e)) (ws_exercises w))),
      (''notes'', dump_opt PStr (ws_notes w))]"

definition dump_food_item :: "food_item \<Rightarrow> pydict" where
  "dump_food_item i =
     [(''barcode'', dump_opt PStr (fi_barcode i)), (''name'', PStr (fi_name i)),
      (''brand'', dump_opt PStr (fi_brand i)), (''calories'', dump_float (fi_calories i)),
      (''protein'', dump_opt dump_float (fi_protein i)),
      (''carbs'', dump_opt dump_float (fi_carbs i)),
      (''fat'', dump_opt dump_float (fi_fat i)),
      (''serving_size'', dump_opt PStr (fi_serving_size i))]"

definition dump_food_log :: "food_log \<Rightarrow> pydict" where
  "dump_food_log l =
     [(''user_id'', PStr (fl_user_id l)), (''log_date'', dump_date (fl_log_date l)),
      (''meal'', dump_opt PStr (fl_meal l)), (''item'', PDict (dump_food_item (fl_item l))),
      (''quantity'', dump_float (fl_quantity l))]"

section \<open>Document store gateway\<close>

text \<open>
  The store holds, for each collection name, its documents in the order of insertion,
  and the next identifier to assign.
\<close>

record store =
  collections :: "string \<Rightarrow> pydict list"
  next_id :: nat

subsection \<open>Filters\<close>

text \<open>
  The filters the service builds: a dictionary of conditions on fields, all of which must
  hold (\<open>{}\<close> is \<open>Fields []\<close>), or \<open>{"$or": [...]}\<close>. A condition is a value to equal,
  or \<open>{"$regex": pattern, "$options": options}\<close>.
\<close>

datatype mongo_cond = Eq pyval | Regex string string

datatype mongo_filter = Fields "(string \<times> mongo_cond) list" | Or "mongo_filter list"

text \<open>
  Of the store's pattern language two kinds of pattern characters are interpreted: the
  dot, which matches any character but a newline, and the characters that are not
  metacharacters, which match themselves (with the option \<open>i\<close>, up to the case of ASCII
  letters). A pattern matches a text when it matches at some position of it.
\<close>

definition regex_meta :: "char \<Rightarrow> bool" where
  "regex_meta c = (c \<in> set (CHR 0x5C # ''^$.|?*+()[]{}''))"

definition pattern_modelled :: "string \<Rightarrow> bool" where
  "pattern_modelled pat = list_all (\<lambda>c. c = CHR ''.'' \<or> \<not> regex_meta c) pat"

definition lower :: "char \<Rightarrow> char" where
  "lower c =
     (case map_of (zip ''ABCDEFGHIJKLMNOPQRSTUVWXYZ'' ''abcdefghijklmnopqrstuvwxyz'') c of
        None \<Rightarrow> c
      | Some l \<Rightarrow> l)"

definition atom_match :: "bool \<Rightarrow> char \<Rightarrow> char \<Rightarrow> bool" where
  "atom_match ci a c =
     (if a = CHR ''.'' then c \<noteq> CHR 0x0A
      else if ci then lower a = lower c
      else a = c)"

fun match_here :: "bool \<Rightarrow> string \<Rightarrow> string \<Rightarrow> bool" where
  "match_here ci [] s = True"
| "match_here ci (a # as) [] = False"
| "match_here ci (a # as) (c # cs) = (atom_match ci a c \<and> match_here ci as cs)"

fun regex_search :: "bool \<Rightarrow> string \<Rightarrow> string \<Rightarrow> bool" where
  "regex_search ci pat [] = match_here ci pat []"
| "regex_search ci pat (c # cs) = (match_here ci pat (c # cs) \<or> regex_search ci pat cs)"

fun cond_modelled :: "mongo_cond \<Rightarrow> bool" where
  "cond_modelled (Eq v) = True"
| "cond_modelled (Regex pat opts) = (pattern_modelled pat \<and> (opts = [] \<or> opts = ''i''))"

fun filter_modelled :: "mongo_filter \<Rightarrow> bool" where
  "filter_modelled (Fields cs) = list_all (\<lambda>kc. cond_modelled (snd kc)) cs"
| "filter_modelled (Or fs) = list_all filter_modelled fs"

text \<open>
  Whether a document satisfies a filter; it is meaningful for the filters that
  \<open>filter_modelled\<close> accepts. A \<open>$regex\<close> condition holds of a field that is a string
  the pattern matches. The fields the service filters on hold a string or \<open>None\<close> in
  every document it writes; how the store treats a field that holds an array is left out.
\<close>

fun cond_holds :: "mongo_cond \<Rightarrow> pyval option \<Rightarrow> bool" where
  "cond_holds (Eq v) fv = (fv = Some v)"
| "cond_holds (Regex pat opts) (Some (PStr s)) = regex_search (opts = ''i'') pat s"
| "cond_holds (Regex pat opts) fv = False"

fun matches :: "mongo_filter \<Rightarrow> pydict \<Rightarrow> bool" where
  "matches (Fields cs) doc = list_all (\<lambda>kc. cond_holds (snd kc) (map_of doc (fst kc))) cs"
| "matches (Or fs) doc = list_ex (\<lambda>f. matches f doc) fs"

subsection \<open>Operations\<close>

text \<open>
  Modelled from the spec: \<open>create_document\<close> of database.py, which is not among the
  sources. It inserts one document and returns its newly assigned unique identifier, as
  text (\<open>pstr\<close> is the builtin \<open>str\<close>).
\<close>

definition create_document ::
  "(pyval \<Rightarrow> string) \<Rightarrow> string \<Rightarrow> pydict \<Rightarrow> store \<Rightarrow> string \<times> store" where
  "create_document pstr coll entity st =
     (let oid = PObjectId (next_id st) in
      (pstr oid,
       st\<lparr>collections := (collections st)(coll := collections st coll @ [(''_id'', oid) # entity]),
          next_id := Suc (next_id st)\<rparr>))"

text \<open>
  Modelled from the spec: \<open>get_documents\<close> of database.py, which is not among the
  sources. It returns the documents matching the predicate, optionally capped at
  \<open>limit\<close> documents. The result is \<open>None\<close> for a filter outside \<open>filter_modelled\<close>.
\<close>

definition get_documents ::
  "string \<Rightarrow> mongo_filter \<Rightarrow> int option \<Rightarrow> store \<Rightarrow> pydict list option" where
  "get_documents coll filt limit st =
     (if filter_modelled filt
      then (let found = filter (matches filt) (collections st coll)
            in Some (case limit of None \<Rightarrow> found | Some n \<Rightarrow> take (nat n) found))
      else None)"

text \<open>
  Modelled from the spec: \<open>db[name].count_documents({})\<close>, the number of documents the
  collection holds.
\<close>

definition count_documents :: "string \<Rightarrow> store \<Rightarrow> nat" where
  "count_documents coll st = length (collections st coll)"

section \<open>Endpoints (main.py)\<close>

text \<open>
  A write endpoint declares its body as a model: the framework validates the payload
  first and answers 422 without calling the handler when validation fails. The errors of
  a body are placed under \<open>body\<close>.
\<close>

definition in_body :: "verror \<Rightarrow> verror" where
  "in_body e = (Key ''body'' # fst e, snd e)"

definition created :: "string \<times> store \<Rightarrow> (api_error + pyval) \<times> store" where
  "created r = (Inr (PDict [(''id'', PStr (fst r))]), snd r)"

definition create_template ::
  "(pyval \<Rightarrow> string) \<Rightarrow> workout_template_in \<Rightarrow> store \<Rightarrow> (api_error + pyval) \<times> store" where
  "create_template pstr payload st =
     (case validate_workout_template payload of
        Inl es \<Rightarrow> (Inl (HTTP422 (map in_body es)), st)
      | Inr template \<Rightarrow>
          created (create_document pstr ''workouttemplate'' (dump_workout_template template) st))"

definition create_session ::
  "(pyval \<Rightarrow> string) \<Rightarrow> (string \<Rightarrow> date option) \<Rightarrow> workout_session_in \<Rightarrow> store
     \<Rightarrow> (api_error + pyval) \<times> store" where
  "create_session pstr pd payload st =
     (case validate_workout_session pd payload of
        Inl es \<Rightarrow> (Inl (HTTP422 (map in_body es)), st)
      | Inr session \<Rightarrow>
          created (create_document pstr ''workoutsession'' (dump_workout_session session) st))"

definition create_food_log ::
  "(pyval \<Rightarrow> string) \<Rightarrow> (string \<Rightarrow> date option) \<Rightarrow> food_log_in \<Rightarrow> store
     \<Rightarrow> (api_error + pyval) \<times> store" where
  "create_food_log pstr pd payload st =
     (case validate_food_log pd payload of
        Inl es \<Rightarrow> (Inl (HTTP422 (map in_body es)), st)
      | Inr entry \<Rightarrow> created (create_document pstr ''foodlog'' (dump_food_log entry) st))"

text \<open>\<open>[to_public(d) for d in docs]\<close>\<close>

definition public_docs :: "(pyval \<Rightarrow> string) \<Rightarrow> pydict list \<Rightarrow> pydict option list" where
  "public_docs pstr docs = map (\<lambda>d. to_public pstr (Some d)) docs"

text \<open>\<open>list_templates\<close>: \<open>q\<close> is the optional query parameter.\<close>

definition template_filter :: "string option \<Rightarrow> mongo_filter" where
  "template_filter q =
     (case q of
        None \<Rightarrow> Fields []
      | Some pat \<Rightarrow>
          if pat \<noteq> []
          then Or [Fields [(''title'', Regex pat ''i'')],
                   Fields [(''description'', Regex pat ''i'')]]
          else Fields [])"

definition list_templates ::
  "(pyval \<Rightarrow> string) \<Rightarrow> string option \<Rightarrow> store \<Rightarrow> api_error + pydict option list" where
  "list_templates pstr q st =
     (case get_documents ''workouttemplate'' (template_filter q) None st of
        None \<Rightarrow> Inl NotModelled
      | Some docs \<Rightarrow> Inr (public_docs pstr docs))"

text \<open>
  \<open>list_sessions\<close>: the parameter \<open>limit\<close> is declared \<open>Query(50, ge=1, le=200)\<close>; the
  framework validates it as it validates a body.
\<close>

definition limit_query :: "int option \<Rightarrow> verror list + int" where
  "limit_query a =
     (case a of
        None \<Rightarrow> Inr 50
      | Some v \<Rightarrow>
          (case check_int (Some 1) (Some 200) v of
             [] \<Rightarrow> Inr v
           | es \<Rightarrow> Inl (map (Pair [Key ''query'', Key ''limit'']) es)))"

definition list_sessions ::
  "(pyval \<Rightarrow> string) \<Rightarrow> string \<Rightarrow> int option \<Rightarrow> store \<Rightarrow> api_error + pydict option list" where
  "list_sessions pstr user_id limit st =
     (case limit_query limit of
        Inl es \<Rightarrow> Inl (HTTP422 es)
      | Inr n \<Rightarrow>
          (case get_documents ''workoutsession'' (Fields [(''user_id'', Eq (PStr user_id))])
                  (Some n) st of
             None \<Rightarrow> Inl NotModelled
           | Some docs \<Rightarrow> Inr (public_docs pstr docs)))"

subsection \<open>Seeding of the prebuilt templates\<close>

text \<open>
  The constructor arguments of the three prebuilt templates, and the models the
  constructors build from them when the module is loaded.
\<close>

definition ex_payload :: "string \<Rightarrow> int \<Rightarrow> int \<Rightarrow> exercise_in" where
  "ex_payload n s r =
     \<lparr>in_name = Given n, in_sets = Given s, in_reps = Given r, in_weight = Absent,
      in_notes = Absent\<rparr>"

definition prebuilt_payloads :: "workout_template_in list" where
  "prebuilt_payloads =
     [\<lparr>in_title = Given ''Push Day (Chest/Shoulders/Triceps)'',
       in_description = Given ''Classic push workout'',
       in_exercises = Given
         [(ex_payload ''Bench Press'' 4 8)\<lparr>in_weight := Null\<rparr>,
          ex_payload ''Incline Dumbbell Press'' 3 10,
          ex_payload ''Overhead Press'' 3 8,
          ex_payload ''Lateral Raise'' 3 15,
          ex_payload ''Tricep Pushdown'' 3 12],
       in_level = Given ''Intermediate''\<rparr>,
      \<lparr>in_title = Given ''Pull Day (Back/Biceps)'',
       in_description = Given ''Back and biceps focus'',
       in_exercises = Given
         [ex_payload ''Deadlift'' 3 5,
          ex_payload ''Bent-over Row'' 4 8,
          ex_payload ''Lat Pulldown'' 3 10,
          ex_payload ''Face Pulls'' 3 15,
          ex_payload ''Bicep Curl'' 3 12],
       in_level = Given ''Intermediate''\<rparr>,
      \<lparr>in_title = Given ''Leg Day'',
       in_description = Given ''Quads, hamstrings, glutes'',
       in_exercises = Given
         [ex_payload ''Squat'' 4 6,
          ex_payload ''Romanian Deadlift'' 3 8,
          ex_payload ''Leg Press'' 3 12,
          ex_payload ''Leg Curl'' 3 12,
          ex_payload ''Calf Raise'' 4 15],
       in_level = Given ''Intermediate''\<rparr>]"

definition ex_model :: "string \<Rightarrow> int \<Rightarrow> int \<Rightarrow> exercise" where
  "ex_model n s r =
     \<lparr>ex_name = n, ex_sets = s, ex_reps = r, ex_weight = None, ex_notes = None\<rparr>"

definition PREBUILT_TEMPLATES :: "workout_template list" where
  "PREBUILT_TEMPLATES =
     [\<lparr>wt_title = ''Push Day (Chest/Shoulders/Triceps)'',
       wt_description = Some ''Classic push workout'',
       wt_exercises =
         [ex_model ''Bench Press'' 4 8,
          ex_model ''Incline Dumbbell Press'' 3 10,
          ex_model ''Overhead Press'' 3 8,
          ex_model ''Lateral Raise'' 3 15,
          ex_model ''Tricep Pushdown'' 3 12],
       wt_level = Some ''Intermediate''\<rparr>,
      \<lparr>wt_title = ''Pull Day (Back/Biceps)'',
       wt_description = Some ''Back and biceps focus'',
       wt_exercises =
         [ex_model ''Deadlift'' 3 5,
          ex_model ''Bent-over Row'' 4 8,
          ex_model ''Lat Pulldown'' 3 10,
          ex_model ''Face Pulls'' 3 15,
          ex_model ''Bicep Curl'' 3 12],
       wt_level = Some ''Intermediate''\<rparr>,
      \<lparr>wt_title = ''Leg Day'',
       wt_description = Some ''Quads, hamstrings, glutes'',
       wt_exercises =
         [ex_model ''Squat'' 4 6,
          ex_model ''Romanian Deadlift'' 3 8,
          ex_model ''Leg Press'' 3 12,
          ex_model ''Leg Curl'' 3 12,
          ex_model ''Calf Raise'' 4 15],
       wt_level = Some ''Intermediate''\<rparr>]"

text \<open>
  Modelled from the spec: the handle \<open>db\<close> of database.py, which is not among the
  sources: the process-wide connection to the store, or \<open>None\<close> when no store is
  configured. main.py uses it as the driver's database object (\<open>db.name\<close>,
  \<open>db.list_collection_names()\<close>, \<open>db[name].count_documents\<close>).
\<close>

datatype handle = NoDatabase | Database store

text \<open>
  The truth test of the handle, \<open>if db\<close>. \<open>None\<close> is false. The driver's database
  object refuses the test: its \<open>__bool__\<close> raises \<open>NotImplementedError\<close> and asks for
  a comparison with \<open>None\<close>, the comparison that \<open>test_database\<close> makes at line 52.
\<close>

fun handle_truth :: "handle \<Rightarrow> py_exn + bool" where
  "handle_truth NoDatabase = Inr False"
| "handle_truth (Database st) = Inl NotImplementedError"

text \<open>\<open>db[name].count_documents({})\<close>; \<open>None\<close> cannot be indexed.\<close>

fun count_in :: "string \<Rightarrow> handle \<Rightarrow> py_exn + nat" where
  "count_in coll NoDatabase = Inl TypeError"
| "count_in coll (Database st) = Inr (count_documents coll st)"

text \<open>
  Modelled from the spec: \<open>create_document\<close> on the handle. A failure of the store is
  not handled and leaves as a generic service error; without a store nothing can be
  inserted.
\<close>

fun create_in ::
  "(pyval \<Rightarrow> string) \<Rightarrow> string \<Rightarrow> pydict \<Rightarrow> handle \<Rightarrow> py_exn + string \<times> handle" where
  "create_in pstr coll entity NoDatabase = Inl StoreError"
| "create_in pstr coll entity (Database st) =
     Inr (fst (create_document pstr coll entity st),
          Database (snd (create_document pstr coll entity st)))"

text \<open>
  The loop \<open>for t in PREBUILT_TEMPLATES: create_document(...)\<close>: the exception that
  ended it, if any, and the handle it leaves.
\<close>

fun insert_all ::
  "(pyval \<Rightarrow> string) \<Rightarrow> string \<Rightarrow> workout_template list \<Rightarrow> handle \<Rightarrow> py_exn option \<times> handle" where
  "insert_all pstr coll [] db = (None, db)"
| "insert_all pstr coll (t # ts) db =
     (case create_in pstr coll (dump_workout_template t) db of
        Inl e \<Rightarrow> (Some e, db)
      | Inr r \<Rightarrow> insert_all pstr coll ts (snd r))"

text \<open>
  \<open>seed_templates\<close>. An exception that leaves a handler becomes a status 500.
\<close>

definition seed_templates :: "(pyval \<Rightarrow> string) \<Rightarrow> handle \<Rightarrow> (api_error + pyval) \<times> handle" where
  "seed_templates pstr db =
     (case then_exn (handle_truth db)
             (\<lambda>truth. if truth then count_in ''workouttemplate'' db else Inr 0) of
        Inl e \<Rightarrow> (Inl (HTTP500 e), db)
      | Inr existing \<Rightarrow>
          if existing = 0
          then (case insert_all pstr ''workouttemplate'' PREBUILT_TEMPLATES db of
                  (Some e, db') \<Rightarrow> (Inl (HTTP500 e), db')
                | (None, db') \<Rightarrow>
                    (Inr (PDict [(''seeded'', PInt (int (length PREBUILT_TEMPLATES)))]), db'))
          else (Inr (PDict [(''seeded'', PInt 0),
                            (''message'', PStr ''Templates already exist'')]), db))"

section \<open>Notions of the specification\<close>

text \<open>
  A field contains \<open>q\<close> as a case-insensitive substring: the field is a string, and
  \<open>q\<close> occurs in it once both are put in lower case.
\<close>

definition contains_ci :: "string \<Rightarrow> pyval option \<Rightarrow> bool" where
  "contains_ci q fv =
     (case fv of Some (PStr s) \<Rightarrow> sublist (map lower q) (map lower s) | other \<Rightarrow> False)"

text \<open>
  The field constraints of the data model (sections 3 and 4.1 of the specification),
  stated on the payload: its violations, each with its place. A field that must be
  present is \<open>lacking\<close> when it is absent or null; a field that has a default but is
  not optional must not be null; a number lies within its bounds; the name of an
  exercise is non-empty text; a date is read from its text.
\<close>

definition lacking :: "loc_part list \<Rightarrow> 'a arg \<Rightarrow> verror list" where
  "lacking loc a =
     (case a of Absent \<Rightarrow> [(loc, Missing)] | Null \<Rightarrow> [(loc, NoneNotAllowed)] | Given v \<Rightarrow> [])"

definition null_given :: "loc_part list \<Rightarrow> 'a arg \<Rightarrow> verror list" where
  "null_given loc a = (case a of Null \<Rightarrow> [(loc, NoneNotAllowed)] | other \<Rightarrow> [])"

definition int_outside :: "loc_part list \<Rightarrow> int \<Rightarrow> int \<Rightarrow> int arg \<Rightarrow> verror list" where
  "int_outside loc lo hi a =
     (case a of
        Given v \<Rightarrow>
          if v < lo then [(loc, GreaterThanEqual (of_int lo))]
          else if hi < v then [(loc, LessThanEqual (of_int hi))]
          else []
      | other \<Rightarrow> [])"

definition float_below :: "loc_part list \<Rightarrow> real \<Rightarrow> real arg \<Rightarrow> verror list" where
  "float_below loc lo a =
     (case a of Given v \<Rightarrow> if v < lo then [(loc, GreaterThanEqual lo)] else [] | other \<Rightarrow> [])"

definition empty_text :: "loc_part list \<Rightarrow> string arg \<Rightarrow> verror list" where
  "empty_text loc a =
     (case a of Given s \<Rightarrow> if s = [] then [(loc, EmptyText)] else [] | other \<Rightarrow> [])"

definition not_a_date ::
  "(string \<Rightarrow> date option) \<Rightarrow> loc_part list \<Rightarrow> string arg \<Rightarrow> verror list" where
  "not_a_date pd loc a =
     (case a of Given s \<Rightarrow> if pd s = None then [(loc, DateParsing)] else [] | other \<Rightarrow> [])"

definition exercise_violated :: "loc_part list \<Rightarrow> exercise_in \<Rightarrow> verror list" where
  "exercise_violated loc p =
     lacking (loc @ [Key ''name'']) (in_name p)
     @ empty_text (loc @ [Key ''name'']) (in_name p)
     @ lacking (loc @ [Key ''sets'']) (in_sets p)
     @ int_outside (loc @ [Key ''sets'']) 1 20 (in_sets p)
     @ lacking (loc @ [Key ''reps'']) (in_reps p)
     @ int_outside (loc @ [Key ''reps'']) 1 100 (in_reps p)
     @ float_below (loc @ [Key ''weight'']) 0 (in_weight p)"

fun exercises_violated :: "loc_part list \<Rightarrow> nat \<Rightarrow> exercise_in list \<Rightarrow> verror list" where
  "exercises_violated loc i [] = []"
| "exercises_violated loc i (p # ps) =
     exercise_violated (loc @ [Idx i]) p @ exercises_violated loc (Suc i) ps"

definition exercise_list_violated :: "loc_part list \<Rightarrow> exercise_in list arg \<Rightarrow> verror list" where
  "exercise_list_violated loc a =
     null_given loc a
     @ (case a of Given ps \<Rightarrow> exercises_violated loc 0 ps | other \<Rightarrow> [])"

definition template_violated :: "workout_template_in \<Rightarrow> verror list" where
  "template_violated p =
     lacking [Key ''title''] (in_title p)
     @ exercise_list_violated [Key ''exercises''] (in_exercises p)"

definition session_violated ::
  "(string \<Rightarrow> date option) \<Rightarrow> workout_session_in \<Rightarrow> verror list" where
  "session_violated pd p =
     lacking [Key ''user_id''] (in_user_id p)
     @ lacking [Key ''session_date''] (in_session_date p)
     @ not_a_date pd [Key ''session_date''] (in_session_date p)
     @ lacking [Key ''title''] (in_session_title p)
     @ exercise_list_violated [Key ''exercises''] (in_session_exercises p)"

definition food_item_violated :: "loc_part list \<Rightarrow> food_item_in \<Rightarrow> verror list" where
  "food_item_violated loc p =
     lacking (loc @ [Key ''name'']) (in_item_name p)
     @ lacking (loc @ [Key ''calories'']) (in_calories p)
     @ float_below (loc @ [Key ''calories'']) 0 (in_calories p)
     @ float_below (loc @ [Key ''protein'']) 0 (in_protein p)
     @ float_below (loc @ [Key ''carbs'']) 0 (in_carbs p)
     @ float_below (loc @ [Key ''fat'']) 0 (in_fat p)"

definition food_log_violated :: "(string \<Rightarrow> date option) \<Rightarrow> food_log_in \<Rightarrow> verror list" where
  "food_log_violated pd p =
     lacking [Key ''user_id''] (in_log_user_id p)
     @ lacking [Key ''log_date''] (in_log_date p)
     @ not_a_date pd [Key ''log_date''] (in_log_date p)
     @ lacking [Key ''item''] (in_item p)
     @ (case in_item p of Given i \<Rightarrow> food_item_violated [Key ''item''] i | other \<Rightarrow> [])
     @ null_given [Key ''quantity''] (in_quantity p)
     @ float_below [Key ''quantity''] (1 / 10) (in_quantity p)"

text \<open>
  The violations that schemas.py declares a constraint for: all but the emptiness of a
  text, for which no field gives a minimum length.
\<close>

definition enforced :: "verror \<Rightarrow> bool" where
  "enforced e = (snd e \<noteq> EmptyText)"

section \<open>Properties of the nutrition normalizer\<close>

lemma round_double_small: "\<bar>n\<bar> < 2 ^ 53 \<Longrightarrow> round_double n = n"
proof -
  assume a: "\<bar>n\<bar> < 2 ^ 53"
  have "bitlen \<bar>n\<bar> \<le> 53"
    using a by (simp add: bitlen_le_iff_power)
  then show ?thesis by (simp add: round_double_def Let_def)
qed

lemma float_of_int_small: "\<bar>n\<bar> < 2 ^ 53 \<Longrightarrow> float_of_int n = Inr (Fin (of_int n))"
  by (simp add: float_of_int_def round_double_small Let_def)

lemma float_of_int_0: "float_of_int 0 = Inr (Fin 0)"
  using float_of_int_small [of 0] by simp

lemma float_of_int_120: "float_of_int 120 = Inr (Fin 120)"
  using float_of_int_small [of 120] by simp

lemma float_of_int_250: "float_of_int 250 = Inr (Fin 250)"
  using float_of_int_small [of 250] by simp

lemma macro_absent: "map_of n k = None \<Longrightarrow> macro_of sf n k = Inr (Fin 0)"
  by (simp add: macro_of_def dict_get_def py_or_def float_of_int_0)

lemma normalize_empty: "normalize_product sf (PDict []) = Inr placeholder_item"
  by (simp add: placeholder_item_def dict_get_def resolve_calories_def py_or_def then_exn_def
        macro_of_def float_of_int_0)

lemma normalize_product_fields:
  assumes "normalize_product sf (PDict p) = Inr (PDict item)"
      and "dict_get p ''nutriments'' (PDict []) = PDict n"
  shows "(if resolve_calories n \<noteq> PNone
          then then_exn (py_float sf (resolve_calories n)) (\<lambda>f. Inr (PFloat f))
          else Inr (PInt 0)) = (Inr (the (map_of item ''calories'')) :: py_exn + pyval)
         \<and> map_of item ''calories'' \<noteq> None
         \<and> (\<exists>f. macro_of sf n ''proteins_100g'' = Inr f
                \<and> map_of item ''protein'' = Some (PFloat f))"
  using assms
  by (auto simp: then_exn_def Let_def split: sum.splits if_splits)

text \<open>Both endpoints hand every product record to \<open>normalize_product\<close>.\<close>

lemma food_by_barcode_normalizes:
  assumes "truthy (dict_get d ''product'' PNone)"
  shows "food_by_barcode sf (Inr (PDict d)) =
     (case normalize_product sf (dict_get d ''product'' PNone) of
        Inl e \<Rightarrow> Inl (HTTP500 e)
      | Inr item \<Rightarrow> Inr item)"
proof -
  have "py_or (dict_get d ''product'' PNone) (PDict []) = dict_get d ''product'' PNone"
    using assms by (simp add: py_or_def)
  then show ?thesis
    by (simp add: food_by_barcode_def then_exn_def)
qed

lemma normalize_all_items:
  "normalize_all sf ps = Inr items \<longleftrightarrow>
   list_all2 (\<lambda>p item. normalize_product sf p = Inr item) ps items"
proof (induction ps arbitrary: items)
  case Nil
  then show ?case by auto
next
  case (Cons p ps)
  show ?case
  proof (cases "normalize_product sf p")
    case (Inl e)
    then show ?thesis
      by (auto simp: then_exn_def list_all2_Cons1)
  next
    case (Inr item)
    then show ?thesis
      using Cons.IH
      by (cases "normalize_all sf ps") (auto simp: then_exn_def list_all2_Cons1)
  qed
qed

lemma search_food_normalizes:
  assumes "dict_get d ''products'' (PList []) = PList ps"
  shows "search_food sf (Inr (PDict d)) =
     (case normalize_all sf ps of
        Inl e \<Rightarrow> Inl (HTTP500 e)
      | Inr items \<Rightarrow> Inr (PDict [(''results'', PList items)]))"
  using assms
  by (cases "normalize_all sf ps") (simp_all add: search_food_def then_exn_def)

text \<open>
  C9. A barcode lookup whose answer is a JSON object without a product record (the
  entry \<open>product\<close> is absent, null or otherwise falsy) returns the placeholder item:
  name "Unknown", calories 0, macros 0.0, and no barcode, brand or serving size. It is
  an ordinary result, not an error.
\<close>

theorem barcode_no_product_placeholder:
  assumes "\<not> truthy (dict_get d ''product'' PNone)"
  shows "food_by_barcode sf (Inr (PDict d)) = Inr placeholder_item"
proof -
  have "py_or (dict_get d ''product'' PNone) (PDict []) = PDict []"
    using assms by (simp add: py_or_def)
  then have "food_by_barcode sf (Inr (PDict d)) =
      (case normalize_product sf (PDict []) of Inl e \<Rightarrow> Inl (HTTP500 e) | Inr item \<Rightarrow> Inr item)"
    by (simp add: food_by_barcode_def then_exn_def)
  then show ?thesis
    by (simp only: normalize_empty sum.case)
qed

theorem barcode_no_product_placeholder_witness:
  "\<not> truthy (dict_get [(''code'', PStr ''0000''), (''status'', PInt 0)] ''product'' PNone)
   \<and> food_by_barcode (\<lambda>s. None) (Inr (PDict [(''code'', PStr ''0000''), (''status'', PInt 0)]))
       = Inr (PDict
           [(''barcode'', PNone), (''name'', PStr ''Unknown''), (''brand'', PNone),
            (''calories'', PInt 0), (''protein'', PFloat (Fin 0)), (''carbs'', PFloat (Fin 0)),
            (''fat'', PFloat (Fin 0)), (''serving_size'', PNone)])"
proof -
  have h: "\<not> truthy (dict_get [(''code'', PStr ''0000''), (''status'', PInt 0)] ''product'' PNone)"
    by (simp add: dict_get_def)
  show ?thesis
    using h barcode_no_product_placeholder [OF h, of "\<lambda>s. None"]
    by (simp add: placeholder_item_def)
qed

text \<open>
  C2, as amended. When a product record is normalized, its \<open>calories\<close> is \<open>float(a)\<close>
  for the per-100g energy value \<open>a\<close> if \<open>a\<close> is truthy (present, not null, not zero);
  otherwise \<open>float(b)\<close> for the per-serving value \<open>b\<close> if \<open>b\<close> is present and not
  null; otherwise the integer 0. With \<open>energy-kcal_100g = 250\<close> and \<open>proteins_100g\<close>
  absent, \<open>calories\<close> is 250.0 and \<open>protein\<close> is 0.0.
\<close>

theorem calories_resolution:
  assumes ok: "normalize_product sf (PDict p) = Inr (PDict item)"
      and nut: "dict_get p ''nutriments'' (PDict []) = PDict n"
  shows "(truthy (dict_get n ''energy-kcal_100g'' PNone) \<longrightarrow>
            (\<exists>f. py_float sf (dict_get n ''energy-kcal_100g'' PNone) = Inr f
                 \<and> map_of item ''calories'' = Some (PFloat f)))
       \<and> (\<not> truthy (dict_get n ''energy-kcal_100g'' PNone)
            \<and> dict_get n ''energy-kcal_serving'' PNone \<noteq> PNone \<longrightarrow>
            (\<exists>f. py_float sf (dict_get n ''energy-kcal_serving'' PNone) = Inr f
                 \<and> map_of item ''calories'' = Some (PFloat f)))
       \<and> (\<not> truthy (dict_get n ''energy-kcal_100g'' PNone)
            \<and> dict_get n ''energy-kcal_serving'' PNone = PNone \<longrightarrow>
            map_of item ''calories'' = Some (PInt 0))
       \<and> (map_of n ''energy-kcal_100g'' = Some (PInt 250) \<and> map_of n ''proteins_100g'' = None \<longrightarrow>
            map_of item ''calories'' = Some (PFloat (Fin 250))
            \<and> map_of item ''protein'' = Some (PFloat (Fin 0)))"
proof -
  let ?a = "dict_get n ''energy-kcal_100g'' PNone"
  let ?b = "dict_get n ''energy-kcal_serving'' PNone"
  note c = normalize_product_fields [OF ok nut]
  obtain cal where cal: "map_of item ''calories'' = Some cal"
    using c by auto
  have eq: "(if resolve_calories n \<noteq> PNone
          then then_exn (py_float sf (resolve_calories n)) (\<lambda>f. Inr (PFloat f))
          else Inr (PInt 0)) = (Inr cal :: py_exn + pyval)"
    using c cal by simp
  have r1: "truthy ?a \<Longrightarrow> resolve_calories n = ?a \<and> ?a \<noteq> PNone"
    by (auto simp: resolve_calories_def py_or_def)
  have r2: "\<not> truthy ?a \<Longrightarrow> resolve_calories n = ?b"
    by (simp add: resolve_calories_def py_or_def)
  have g1: "truthy ?a \<longrightarrow> (\<exists>f. py_float sf ?a = Inr f \<and> map_of item ''calories'' = Some (PFloat f))"
    using eq cal r1 by (auto simp: then_exn_def split: sum.splits)
  have g2: "\<not> truthy ?a \<and> ?b \<noteq> PNone \<longrightarrow>
      (\<exists>f. py_float sf ?b = Inr f \<and> map_of item ''calories'' = Some (PFloat f))"
    using eq cal r2 by (auto simp: then_exn_def split: sum.splits)
  have g3: "\<not> truthy ?a \<and> ?b = PNone \<longrightarrow> map_of item ''calories'' = Some (PInt 0)"
    using eq cal r2 by auto
  have g4: "map_of n ''energy-kcal_100g'' = Some (PInt 250) \<and> map_of n ''proteins_100g'' = None \<longrightarrow>
            map_of item ''calories'' = Some (PFloat (Fin 250))
            \<and> map_of item ''protein'' = Some (PFloat (Fin 0))"
  proof (intro impI conjI)
    assume h: "map_of n ''energy-kcal_100g'' = Some (PInt 250) \<and> map_of n ''proteins_100g'' = None"
    then have a: "?a = PInt 250" by (simp add: dict_get_def)
    with g1 show "map_of item ''calories'' = Some (PFloat (Fin 250))"
      by (simp add: float_of_int_250)
    from h have "macro_of sf n ''proteins_100g'' = Inr (Fin 0)"
      by (simp add: macro_absent)
    with c show "map_of item ''protein'' = Some (PFloat (Fin 0))"
      by auto
  qed
  from g1 g2 g3 g4 show ?thesis by blast
qed

theorem calories_resolution_witness:
  "normalize_product (\<lambda>s. None)
      (PDict [(''product_name'', PStr ''Oat bar''),
              (''nutriments'', PDict [(''energy-kcal_100g'', PInt 250)])])
    = Inr (PDict
       [(''barcode'', PNone), (''name'', PStr ''Oat bar''), (''brand'', PNone),
        (''calories'', PFloat (Fin 250)), (''protein'', PFloat (Fin 0)),
        (''carbs'', PFloat (Fin 0)), (''fat'', PFloat (Fin 0)), (''serving_size'', PNone)])
   \<and> normalize_product (\<lambda>s. None)
      (PDict [(''nutriments'', PDict [(''energy-kcal_100g'', PNone),
                                      (''energy-kcal_serving'', PInt 120)])])
    = Inr (PDict
       [(''barcode'', PNone), (''name'', PStr ''Unknown''), (''brand'', PNone),
        (''calories'', PFloat (Fin 120)), (''protein'', PFloat (Fin 0)),
        (''carbs'', PFloat (Fin 0)), (''fat'', PFloat (Fin 0)), (''serving_size'', PNone)])
   \<and> normalize_product (\<lambda>s. None) (PDict [(''nutriments'', PDict [(''fat_100g'', PInt 0)])])
    = Inr (PDict
       [(''barcode'', PNone), (''name'', PStr ''Unknown''), (''brand'', PNone),
        (''calories'', PInt 0), (''protein'', PFloat (Fin 0)),
        (''carbs'', PFloat (Fin 0)), (''fat'', PFloat (Fin 0)), (''serving_size'', PNone)])"
proof -
  let ?p1 = "[(''product_name'', PStr ''Oat bar''),
              (''nutriments'', PDict [(''energy-kcal_100g'', PInt 250)])]"
  let ?i1 = "[(''barcode'', PNone), (''name'', PStr ''Oat bar''), (''brand'', PNone),
        (''calories'', PFloat (Fin 250)), (''protein'', PFloat (Fin 0)),
        (''carbs'', PFloat (Fin 0)), (''fat'', PFloat (Fin 0)), (''serving_size'', PNone)]"
  let ?p2 = "[(''nutriments'', PDict [(''energy-kcal_100g'', PNone),
                                      (''energy-kcal_serving'', PInt 120)])]"
  let ?i2 = "[(''barcode'', PNone), (''name'', PStr ''Unknown''), (''brand'', PNone),
        (''calories'', PFloat (Fin 120)), (''protein'', PFloat (Fin 0)),
        (''carbs'', PFloat (Fin 0)), (''fat'', PFloat (Fin 0)), (''serving_size'', PNone)]"
  let ?p3 = "[(''nutriments'', PDict [(''fat_100g'', PInt 0)])]"
  let ?i3 = "[(''barcode'', PNone), (''name'', PStr ''Unknown''), (''brand'', PNone),
        (''calories'', PInt 0), (''protein'', PFloat (Fin 0)),
        (''carbs'', PFloat (Fin 0)), (''fat'', PFloat (Fin 0)), (''serving_size'', PNone)]"
  have ok1: "normalize_product (\<lambda>s. None) (PDict ?p1) = Inr (PDict ?i1)"
    by (simp add: dict_get_def resolve_calories_def py_or_def then_exn_def macro_of_def
          float_of_int_0 float_of_int_250)
  have n1: "dict_get ?p1 ''nutriments'' (PDict []) = PDict [(''energy-kcal_100g'', PInt 250)]"
    by (simp add: dict_get_def)
  have ok2: "normalize_product (\<lambda>s. None) (PDict ?p2) = Inr (PDict ?i2)"
    by (simp add: dict_get_def resolve_calories_def py_or_def then_exn_def macro_of_def
          float_of_int_0 float_of_int_120)
  have n2: "dict_get ?p2 ''nutriments'' (PDict [])
      = PDict [(''energy-kcal_100g'', PNone), (''energy-kcal_serving'', PInt 120)]"
    by (simp add: dict_get_def)
  have ok3: "normalize_product (\<lambda>s. None) (PDict ?p3) = Inr (PDict ?i3)"
    by (simp add: dict_get_def resolve_calories_def py_or_def then_exn_def macro_of_def
          float_of_int_0)
  have n3: "dict_get ?p3 ''nutriments'' (PDict []) = PDict [(''fat_100g'', PInt 0)]"
    by (simp add: dict_get_def)
  show ?thesis
    using ok1 ok2 ok3 calories_resolution [OF ok1 n1] calories_resolution [OF ok2 n2]
      calories_resolution [OF ok3 n3]
    by simp
qed

theorem calories_per_100g_zero_counterexample:
  "normalize_product (\<lambda>s. None)
      (PDict [(''nutriments'', PDict [(''energy-kcal_100g'', PInt 0),
                                      (''energy-kcal_serving'', PInt 120)])])
    = Inr (PDict
       [(''barcode'', PNone), (''name'', PStr ''Unknown''), (''brand'', PNone),
        (''calories'', PFloat (Fin 120)), (''protein'', PFloat (Fin 0)),
        (''carbs'', PFloat (Fin 0)), (''fat'', PFloat (Fin 0)), (''serving_size'', PNone)])
   \<and> py_float (\<lambda>s. None) (PInt 0) = Inr (Fin 0)
   \<and> Fin 120 \<noteq> Fin 0"
  by (simp add: dict_get_def resolve_calories_def py_or_def then_exn_def macro_of_def
        float_of_int_0 float_of_int_120)

section \<open>Properties of the public form\<close>

lemma to_public_no_id: "\<not> has_field (to_public pstr doc) ''_id''"
  by (auto simp: to_public_def has_field_def update_conv' delete_conv' split: option.splits)

lemma to_public_fixed: "\<not> has_field doc ''_id'' \<Longrightarrow> to_public pstr doc = doc"
  by (auto simp: to_public_def has_field_def split: option.splits)

lemma to_public_frame:
  "k \<noteq> ''_id'' \<Longrightarrow> k \<noteq> ''id'' \<Longrightarrow> field_of (to_public pstr doc) k = field_of doc k"
  by (auto simp: to_public_def field_of_def update_conv' delete_conv' split: option.splits)


text \<open>
  C7. \<open>to_public\<close> is idempotent: for every document (and for \<open>None\<close>), applying it
  twice gives what applying it once gives, and the result of the first application has no
  field \<open>_id\<close>.
\<close>

theorem to_public_idempotent:
  "to_public pstr (to_public pstr doc) = to_public pstr doc
   \<and> \<not> has_field (to_public pstr doc) ''_id''"
  using to_public_no_id [of pstr doc] to_public_fixed [of "to_public pstr doc" pstr]
  by simp

text \<open>
  The documents that the service stores are the dumps of its entities under the
  identifier of the store: none of them has a field \<open>id\<close>.
\<close>

lemma stored_without_id:
  "\<not> has_field (Some ((''_id'', oid) # dump_workout_template t)) ''id''"
  "\<not> has_field (Some ((''_id'', oid) # dump_workout_session w)) ''id''"
  "\<not> has_field (Some ((''_id'', oid) # dump_food_log l)) ''id''"
  by (simp_all add: has_field_def dump_workout_template_def dump_workout_session_def
        dump_food_log_def)



section \<open>Properties of the template search\<close>

lemma match_here_prefix:
  "list_all (\<lambda>c. \<not> regex_meta c) q \<Longrightarrow>
   match_here True q s = prefix (map lower q) (map lower s)"
proof (induction q arbitrary: s)
  case Nil
  then show ?case by simp
next
  case (Cons a q)
  have nd: "a \<noteq> CHR ''.''"
    using Cons.prems by (auto simp: regex_meta_def)
  show ?case
  proof (cases s)
    case Nil
    then show ?thesis by simp
  next
    case (Cons c cs)
    then show ?thesis
      using Cons.IH [of cs] Cons.prems nd by (simp add: atom_match_def)
  qed
qed

lemma regex_search_sublist:
  "list_all (\<lambda>c. \<not> regex_meta c) q \<Longrightarrow>
   regex_search True q s = sublist (map lower q) (map lower s)"
proof (induction s)
  case Nil
  then show ?case by (cases q) simp_all
next
  case (Cons c cs)
  then show ?case
    using match_here_prefix [of q "c # cs"]
    by (simp add: sublist_Cons_right)
qed

lemma literal_is_modelled:
  "list_all (\<lambda>c. \<not> regex_meta c) q \<Longrightarrow> pattern_modelled q"
  by (induction q) (simp_all add: pattern_modelled_def)

lemma regex_cond_contains:
  "list_all (\<lambda>c. \<not> regex_meta c) q \<Longrightarrow>
   cond_holds (Regex q ''i'') fv = contains_ci q fv"
proof (cases fv)
  case None
  then show ?thesis by (simp add: contains_ci_def)
next
  case (Some v)
  assume l: "list_all (\<lambda>c. \<not> regex_meta c) q"
  show ?thesis
    using Some regex_search_sublist [OF l]
    by (cases v) (simp_all add: contains_ci_def)
qed

text \<open>
  C3, as amended. For every non-empty query \<open>q\<close> that has no pattern metacharacter, the
  filter of the template search is one the store interprets as described above, and it
  matches exactly the documents whose \<open>title\<close> or \<open>description\<close> is a string
  containing \<open>q\<close> as a case-insensitive substring; an absent \<open>q\<close> gives the filter
  \<open>{}\<close>, which matches every document.
\<close>

theorem template_search_literal:
  assumes "q \<noteq> []" and "list_all (\<lambda>c. \<not> regex_meta c) q"
  shows "filter_modelled (template_filter (Some q))
       \<and> matches (template_filter (Some q)) doc
           = (contains_ci q (map_of doc ''title'') \<or> contains_ci q (map_of doc ''description''))
       \<and> template_filter None = Fields []
       \<and> matches (template_filter None) doc"
  using assms regex_cond_contains [OF assms(2)] literal_is_modelled [OF assms(2)]
  by (simp add: template_filter_def)

theorem template_search_literal_witness:
  "''Push'' \<noteq> [] \<and> list_all (\<lambda>c. \<not> regex_meta c) ''Push''
   \<and> matches (template_filter (Some ''Push''))
       [(''title'', PStr ''Push Day''), (''description'', PNone)]
   \<and> \<not> matches (template_filter (Some ''Push''))
       [(''title'', PStr ''Pull Day''), (''description'', PNone)]
   \<and> \<not> matches (template_filter (Some ''Push''))
       [(''title'', PStr ''Leg Day''), (''description'', PNone)]
   \<and> matches (template_filter (Some ''Push''))
       [(''title'', PStr ''Chest''), (''description'', PStr ''Classic push workout'')]"
proof -
  have a: "''Push'' \<noteq> []" by simp
  have b: "list_all (\<lambda>c. \<not> regex_meta c) ''Push''" by (simp add: regex_meta_def)
  have s: "sublist ''push'' ''push day''" "\<not> sublist ''push'' ''pull day''"
    "\<not> sublist ''push'' ''leg day''" "sublist ''push'' ''classic push workout''"
    "\<not> sublist ''push'' ''chest''"
    by code_simp+
  show ?thesis
    using a b s
      template_search_literal [OF a b, of "[(''title'', PStr ''Push Day''), (''description'', PNone)]"]
      template_search_literal [OF a b, of "[(''title'', PStr ''Pull Day''), (''description'', PNone)]"]
      template_search_literal [OF a b, of "[(''title'', PStr ''Leg Day''), (''description'', PNone)]"]
      template_search_literal [OF a b, of "[(''title'', PStr ''Chest''), (''description'', PStr ''Classic push workout'')]"]
    by (simp add: contains_ci_def lower_def)
qed

theorem template_search_regex_counterexample:
  "filter_modelled (template_filter (Some ''.''))
   \<and> matches (template_filter (Some ''.''))
       [(''title'', PStr ''Leg Day''), (''description'', PNone)]
   \<and> \<not> contains_ci ''.'' (map_of [(''title'', PStr ''Leg Day''), (''description'', PNone)] ''title'')
   \<and> \<not> contains_ci ''.'' (map_of [(''title'', PStr ''Leg Day''), (''description'', PNone)] ''description'')"
proof -
  have s: "\<not> sublist ''.'' ''leg day''" by code_simp
  show ?thesis
    using s
    by (simp add: template_filter_def pattern_modelled_def atom_match_def contains_ci_def lower_def)
qed

text \<open>
  C10. The empty query string builds the same filter as an absent query, the filter
  \<open>{}\<close> that matches every document, and the template search answers alike for both.
\<close>

theorem empty_query_is_match_all:
  "template_filter (Some []) = template_filter None
   \<and> template_filter (Some []) = Fields []
   \<and> filter_modelled (template_filter (Some []))
   \<and> matches (template_filter (Some [])) doc
   \<and> list_templates pstr (Some []) st = list_templates pstr None st"
  by (simp add: template_filter_def list_templates_def)

section \<open>Properties of validation\<close>

lemma errors_of_simps: "errors_of (Inl es) = es" "errors_of (Inr v) = []"
  by (simp_all add: errors_of_def)

lemma errors_with_field: "errors_of (with_field acc r) = errors_of acc @ errors_of r"
  by (cases acc; cases r) (simp_all add: with_field_def errors_of_def)

lemma with_field_nonempty:
  "acc \<noteq> Inl [] \<Longrightarrow> r \<noteq> Inl [] \<Longrightarrow> with_field acc r \<noteq> Inl []"
  by (cases acc; cases r) (auto simp: with_field_def errors_of_def)

lemma result_cases:
  "r \<noteq> Inl [] \<Longrightarrow> (errors_of r = [] \<and> (\<exists>v. r = Inr v)) \<or> (errors_of r \<noteq> [] \<and> r = Inl (errors_of r))"
  by (cases r) (auto simp: errors_of_def)

lemma required_nonempty: "required loc chk a \<noteq> Inl []"
  by (cases a) (auto simp: required_def split: list.splits)

lemma optional_nonempty: "optional loc chk d a \<noteq> Inl []"
  by (cases a) (auto simp: optional_def split: list.splits)

lemma defaulted_nonempty: "defaulted loc chk d a \<noteq> Inl []"
  by (cases a) (auto simp: defaulted_def split: list.splits)

lemma date_field_nonempty: "date_field pd loc a \<noteq> Inl []"
  by (cases a) (auto simp: date_field_def split: option.splits)

lemma validate_exercise_nonempty: "validate_exercise loc p \<noteq> Inl []"
  unfolding validate_exercise_def
  by (intro with_field_nonempty required_nonempty optional_nonempty) simp

lemma validate_exercises_nonempty: "validate_exercises loc i ps \<noteq> Inl []"
proof (induction ps arbitrary: i)
  case Nil
  then show ?case by simp
next
  case (Cons p ps)
  show ?case
    unfolding validate_exercises.simps
    by (intro with_field_nonempty validate_exercise_nonempty Cons.IH) simp
qed

lemma exercise_list_nonempty: "exercise_list loc a \<noteq> Inl []"
  by (cases a) (simp_all add: exercise_list_def validate_exercises_nonempty)

lemma validate_workout_template_nonempty: "validate_workout_template p \<noteq> Inl []"
  unfolding validate_workout_template_def
  by (intro with_field_nonempty required_nonempty optional_nonempty exercise_list_nonempty) simp

lemma validate_workout_session_nonempty: "validate_workout_session pd p \<noteq> Inl []"
  unfolding validate_workout_session_def
  by (intro with_field_nonempty required_nonempty optional_nonempty exercise_list_nonempty
        date_field_nonempty) simp

lemma validate_food_item_nonempty: "validate_food_item loc p \<noteq> Inl []"
  unfolding validate_food_item_def
  by (intro with_field_nonempty required_nonempty optional_nonempty) simp

lemma food_item_field_nonempty: "food_item_field loc a \<noteq> Inl []"
  by (cases a) (simp_all add: food_item_field_def validate_food_item_nonempty)

lemma validate_food_log_nonempty: "validate_food_log pd p \<noteq> Inl []"
  unfolding validate_food_log_def
  by (intro with_field_nonempty required_nonempty optional_nonempty defaulted_nonempty
        food_item_field_nonempty date_field_nonempty) simp

lemma optional_plain: "errors_of (optional loc unconstrained d a) = []"
  by (cases a) (simp_all add: optional_def unconstrained_def errors_of_def)

text \<open>What each kind of field reports.\<close>

lemma required_reports: "errors_of (required loc unconstrained a) = lacking loc a"
  by (cases a) (simp_all add: required_def unconstrained_def errors_of_def lacking_def)

lemma required_int_reports:
  "lo \<le> hi \<Longrightarrow>
   errors_of (required loc (check_int (Some lo) (Some hi)) a)
     = lacking loc a @ int_outside loc lo hi a"
  by (cases a) (auto simp: required_def check_int_def errors_of_def lacking_def int_outside_def)

lemma required_float_reports:
  "errors_of (required loc (check_float (Some lo)) a) = lacking loc a @ float_below loc lo a"
  by (cases a) (auto simp: required_def check_float_def errors_of_def lacking_def float_below_def)

lemma optional_float_reports:
  "errors_of (optional loc (check_float (Some lo)) d a) = float_below loc lo a"
  by (cases a) (auto simp: optional_def check_float_def errors_of_def float_below_def)

lemma defaulted_float_reports:
  "errors_of (defaulted loc (check_float (Some lo)) d a)
     = null_given loc a @ float_below loc lo a"
  by (cases a) (auto simp: defaulted_def check_float_def errors_of_def float_below_def null_given_def)

lemma date_field_reports:
  "errors_of (date_field pd loc a) = lacking loc a @ not_a_date pd loc a"
  by (cases a) (auto simp: date_field_def errors_of_def lacking_def not_a_date_def
        split: option.splits)

text \<open>Which violations are enforced.\<close>

lemma enforced_lacking: "filter enforced (lacking loc a) = lacking loc a"
  by (cases a) (simp_all add: lacking_def enforced_def)

lemma enforced_null_given: "filter enforced (null_given loc a) = null_given loc a"
  by (cases a) (simp_all add: null_given_def enforced_def)

lemma enforced_int_outside: "filter enforced (int_outside loc lo hi a) = int_outside loc lo hi a"
  by (cases a) (simp_all add: int_outside_def enforced_def)

lemma enforced_float_below: "filter enforced (float_below loc lo a) = float_below loc lo a"
  by (cases a) (simp_all add: float_below_def enforced_def)

lemma enforced_not_a_date: "filter enforced (not_a_date pd loc a) = not_a_date pd loc a"
  by (cases a) (simp_all add: not_a_date_def enforced_def)

lemma enforced_empty_text: "filter enforced (empty_text loc a) = []"
  by (cases a) (simp_all add: empty_text_def enforced_def)

lemmas enforced_fields =
  enforced_lacking enforced_null_given enforced_int_outside enforced_float_below
  enforced_not_a_date enforced_empty_text

lemma exercise_reports:
  "errors_of (validate_exercise loc p) = filter enforced (exercise_violated loc p)"
  by (simp add: validate_exercise_def errors_with_field errors_of_simps required_reports
        required_int_reports optional_plain optional_float_reports exercise_violated_def
        enforced_fields)

lemma exercises_reports:
  "errors_of (validate_exercises loc i ps) = filter enforced (exercises_violated loc i ps)"
  by (induction ps arbitrary: i) (simp_all add: errors_with_field errors_of_simps exercise_reports)

lemma exercise_list_reports:
  "errors_of (exercise_list loc a) = filter enforced (exercise_list_violated loc a)"
  by (cases a) (simp_all add: exercise_list_def exercise_list_violated_def errors_of_simps
        exercises_reports null_given_def enforced_def)

lemma template_reports:
  "errors_of (validate_workout_template p) = filter enforced (template_violated p)"
  by (simp add: validate_workout_template_def errors_with_field errors_of_simps required_reports
        optional_plain exercise_list_reports template_violated_def enforced_fields)

lemma session_reports:
  "errors_of (validate_workout_session pd p) = filter enforced (session_violated pd p)"
  by (simp add: validate_workout_session_def errors_with_field errors_of_simps required_reports
        optional_plain exercise_list_reports date_field_reports session_violated_def
        enforced_fields)

lemma food_item_reports:
  "errors_of (validate_food_item loc p) = filter enforced (food_item_violated loc p)"
  by (simp add: validate_food_item_def errors_with_field errors_of_simps required_reports
        required_float_reports optional_plain optional_float_reports food_item_violated_def
        enforced_fields)

lemma food_item_field_reports:
  "errors_of (food_item_field loc a)
     = lacking loc a
       @ filter enforced (case a of Given i \<Rightarrow> food_item_violated loc i | other \<Rightarrow> [])"
  by (cases a) (simp_all add: food_item_field_def errors_of_simps food_item_reports lacking_def)

lemma food_log_reports:
  "errors_of (validate_food_log pd p) = filter enforced (food_log_violated pd p)"
  by (simp add: validate_food_log_def errors_with_field errors_of_simps required_reports
        optional_plain food_item_field_reports defaulted_float_reports date_field_reports
        food_log_violated_def enforced_fields)

lemma rejected:
  assumes "r \<noteq> Inl []" and "errors_of r = vs" and "vs \<noteq> []"
  shows "r = Inl vs"
  using result_cases [OF assms(1)] assms(2,3) by auto

lemma accepted:
  assumes "r \<noteq> Inl []" and "errors_of r = vs" and "vs = []"
  shows "\<exists>v. r = Inr v"
  using result_cases [OF assms(1)] assms(2,3) by auto

lemma exercise_errors:
  "errors_of (validate_exercise loc p) =
     errors_of (required (loc @ [Key ''name'']) unconstrained (in_name p))
     @ errors_of (required (loc @ [Key ''sets'']) (check_int (Some 1) (Some 20)) (in_sets p))
     @ errors_of (required (loc @ [Key ''reps'']) (check_int (Some 1) (Some 100)) (in_reps p))
     @ errors_of (optional (loc @ [Key ''weight'']) (check_float (Some 0)) None (in_weight p))"
  by (simp add: validate_exercise_def errors_with_field errors_of_simps optional_plain)

lemma exercise_rejected:
  "e \<in> set (errors_of (validate_exercise loc p)) \<Longrightarrow>
   \<exists>es. validate_exercise loc p = Inl es \<and> e \<in> set es"
  using result_cases [OF validate_exercise_nonempty, of loc p] by auto

text \<open>
  C1. An Exercise payload whose \<open>name\<close> is given, whose \<open>sets\<close> is an integer in
  [1, 20], whose \<open>reps\<close> is an integer in [1, 100] and whose \<open>weight\<close> is absent,
  null or not negative validates to the exercise with these values. Any payload whose
  \<open>sets\<close> or \<open>reps\<close> is an integer outside its range fails validation, and the errors
  name that field with the bound it violates.
\<close>

theorem exercise_bounds:
  "(in_name p = Given n \<and> in_sets p = Given s \<and> in_reps p = Given r
      \<and> (in_weight p = Absent \<or> in_weight p = Null \<or> (\<exists>w. in_weight p = Given w \<and> 0 \<le> w))
      \<and> 1 \<le> s \<and> s \<le> 20 \<and> 1 \<le> r \<and> r \<le> 100 \<longrightarrow>
        (\<exists>e. validate_exercise loc p = Inr e \<and> ex_name e = n \<and> ex_sets e = s \<and> ex_reps e = r))
   \<and> (in_sets p = Given s \<and> s < 1 \<longrightarrow>
        (\<exists>es. validate_exercise loc p = Inl es
            \<and> (loc @ [Key ''sets''], GreaterThanEqual 1) \<in> set es))
   \<and> (in_sets p = Given s \<and> 20 < s \<longrightarrow>
        (\<exists>es. validate_exercise loc p = Inl es
            \<and> (loc @ [Key ''sets''], LessThanEqual 20) \<in> set es))
   \<and> (in_reps p = Given r \<and> r < 1 \<longrightarrow>
        (\<exists>es. validate_exercise loc p = Inl es
            \<and> (loc @ [Key ''reps''], GreaterThanEqual 1) \<in> set es))
   \<and> (in_reps p = Given r \<and> 100 < r \<longrightarrow>
        (\<exists>es. validate_exercise loc p = Inl es
            \<and> (loc @ [Key ''reps''], LessThanEqual 100) \<in> set es))"
proof (intro conjI impI)
  assume a: "in_name p = Given n \<and> in_sets p = Given s \<and> in_reps p = Given r
      \<and> (in_weight p = Absent \<or> in_weight p = Null \<or> (\<exists>w. in_weight p = Given w \<and> 0 \<le> w))
      \<and> 1 \<le> s \<and> s \<le> 20 \<and> 1 \<le> r \<and> r \<le> 100"
  then have w: "\<exists>v. optional (loc @ [Key ''weight'']) (check_float (Some 0)) None (in_weight p) = Inr v"
    by (auto simp: optional_def check_float_def)
  have t: "\<exists>v. optional (loc @ [Key ''notes'']) unconstrained None (in_notes p) = Inr v"
    by (cases "in_notes p") (simp_all add: optional_def unconstrained_def)
  from a w t show "\<exists>e. validate_exercise loc p = Inr e \<and> ex_name e = n \<and> ex_sets e = s \<and> ex_reps e = r"
    by (auto simp: validate_exercise_def with_field_def required_def unconstrained_def check_int_def)
next
  assume "in_sets p = Given s \<and> s < 1"
  then have "(loc @ [Key ''sets''], GreaterThanEqual 1) \<in> set (errors_of (validate_exercise loc p))"
    by (simp add: exercise_errors required_def check_int_def errors_of_simps)
  then show "\<exists>es. validate_exercise loc p = Inl es \<and> (loc @ [Key ''sets''], GreaterThanEqual 1) \<in> set es"
    by (rule exercise_rejected)
next
  assume "in_sets p = Given s \<and> 20 < s"
  then have "(loc @ [Key ''sets''], LessThanEqual 20) \<in> set (errors_of (validate_exercise loc p))"
    by (simp add: exercise_errors required_def check_int_def errors_of_simps)
  then show "\<exists>es. validate_exercise loc p = Inl es \<and> (loc @ [Key ''sets''], LessThanEqual 20) \<in> set es"
    by (rule exercise_rejected)
next
  assume "in_reps p = Given r \<and> r < 1"
  then have "(loc @ [Key ''reps''], GreaterThanEqual 1) \<in> set (errors_of (validate_exercise loc p))"
    by (simp add: exercise_errors required_def check_int_def errors_of_simps)
  then show "\<exists>es. validate_exercise loc p = Inl es \<and> (loc @ [Key ''reps''], GreaterThanEqual 1) \<in> set es"
    by (rule exercise_rejected)
next
  assume "in_reps p = Given r \<and> 100 < r"
  then have "(loc @ [Key ''reps''], LessThanEqual 100) \<in> set (errors_of (validate_exercise loc p))"
    by (simp add: exercise_errors required_def check_int_def errors_of_simps)
  then show "\<exists>es. validate_exercise loc p = Inl es \<and> (loc @ [Key ''reps''], LessThanEqual 100) \<in> set es"
    by (rule exercise_rejected)
qed

lemma validate_exercise_eval:
  "validate_exercise loc
     \<lparr>in_name = Given n, in_sets = Given s, in_reps = Given r, in_weight = w, in_notes = t\<rparr>
   = with_field (with_field (with_field (with_field (with_field
       (Inr (\<lambda>n s r w t.
          \<lparr>ex_name = n, ex_sets = s, ex_reps = r, ex_weight = w, ex_notes = t\<rparr>))
       (Inr n))
       (required (loc @ [Key ''sets'']) (check_int (Some 1) (Some 20)) (Given s)))
       (required (loc @ [Key ''reps'']) (check_int (Some 1) (Some 100)) (Given r)))
       (optional (loc @ [Key ''weight'']) (check_float (Some 0)) None w))
       (optional (loc @ [Key ''notes'']) unconstrained None t)"
  by (simp add: validate_exercise_def required_def unconstrained_def)

theorem exercise_bounds_witness:
  "validate_exercise []
     \<lparr>in_name = Given ''Squat'', in_sets = Given 4, in_reps = Given 6, in_weight = Given 60,
      in_notes = Absent\<rparr>
     = Inr \<lparr>ex_name = ''Squat'', ex_sets = 4, ex_reps = 6, ex_weight = Some 60, ex_notes = None\<rparr>
   \<and> validate_exercise []
     \<lparr>in_name = Given ''Squat'', in_sets = Given 0, in_reps = Given 6, in_weight = Absent,
      in_notes = Absent\<rparr>
     = Inl [([Key ''sets''], GreaterThanEqual 1)]
   \<and> validate_exercise []
     \<lparr>in_name = Given ''Squat'', in_sets = Given 21, in_reps = Given 0, in_weight = Absent,
      in_notes = Absent\<rparr>
     = Inl [([Key ''sets''], LessThanEqual 20), ([Key ''reps''], GreaterThanEqual 1)]
   \<and> validate_exercise []
     \<lparr>in_name = Given ''Squat'', in_sets = Given 20, in_reps = Given 101, in_weight = Null,
      in_notes = Absent\<rparr>
     = Inl [([Key ''reps''], LessThanEqual 100)]"
  using
    exercise_bounds [of "\<lparr>in_name = Given ''Squat'', in_sets = Given 4, in_reps = Given 6,
      in_weight = Given 60, in_notes = Absent\<rparr>" "''Squat''" 4 6 "[]"]
    exercise_bounds [of "\<lparr>in_name = Given ''Squat'', in_sets = Given 0, in_reps = Given 6,
      in_weight = Absent, in_notes = Absent\<rparr>" "''Squat''" 0 6 "[]"]
    exercise_bounds [of "\<lparr>in_name = Given ''Squat'', in_sets = Given 21, in_reps = Given 0,
      in_weight = Absent, in_notes = Absent\<rparr>" "''Squat''" 21 0 "[]"]
    exercise_bounds [of "\<lparr>in_name = Given ''Squat'', in_sets = Given 20, in_reps = Given 101,
      in_weight = Null, in_notes = Absent\<rparr>" "''Squat''" 20 101 "[]"]
  by (simp add: validate_exercise_eval with_field_def required_def optional_def check_int_def
        check_float_def unconstrained_def errors_of_def)

text \<open>
  C6, as amended. For each of the three write endpoints: when the payload violates
  constraints that schemas.py declares (a required field absent or null, a null for a
  field that is not optional, \<open>sets\<close> or \<open>reps\<close> outside its range, a negative
  \<open>weight\<close>, \<open>calories\<close> or macro, a \<open>quantity\<close> below 0.1, a date text that is no
  date, also inside the nested exercises and the nested item), the answer is a status
  422 that lists exactly these violations, each at its place under \<open>body\<close> with the
  constraint violated, and the store is unchanged; when it violates none of them, the
  payload validates as a whole and the document of the validated entity is created. The
  emptiness of an exercise name is not among them.
\<close>

theorem validation_all_or_nothing:
  "(filter enforced (food_log_violated pd fp) \<noteq> [] \<longrightarrow>
      create_food_log pstr pd fp st
        = (Inl (HTTP422 (map in_body (filter enforced (food_log_violated pd fp)))), st))
   \<and> (filter enforced (food_log_violated pd fp) = [] \<longrightarrow>
      (\<exists>entry. validate_food_log pd fp = Inr entry
          \<and> create_food_log pstr pd fp st
              = created (create_document pstr ''foodlog'' (dump_food_log entry) st)))
   \<and> (filter enforced (template_violated tp) \<noteq> [] \<longrightarrow>
      create_template pstr tp st
        = (Inl (HTTP422 (map in_body (filter enforced (template_violated tp)))), st))
   \<and> (filter enforced (template_violated tp) = [] \<longrightarrow>
      (\<exists>t. validate_workout_template tp = Inr t
          \<and> create_template pstr tp st
              = created (create_document pstr ''workouttemplate'' (dump_workout_template t) st)))
   \<and> (filter enforced (session_violated pd sp) \<noteq> [] \<longrightarrow>
      create_session pstr pd sp st
        = (Inl (HTTP422 (map in_body (filter enforced (session_violated pd sp)))), st))
   \<and> (filter enforced (session_violated pd sp) = [] \<longrightarrow>
      (\<exists>w. validate_workout_session pd sp = Inr w
          \<and> create_session pstr pd sp st
              = created (create_document pstr ''workoutsession'' (dump_workout_session w) st)))"
proof (intro conjI impI)
  assume "filter enforced (food_log_violated pd fp) \<noteq> []"
  from rejected [OF validate_food_log_nonempty food_log_reports this]
  show "create_food_log pstr pd fp st
        = (Inl (HTTP422 (map in_body (filter enforced (food_log_violated pd fp)))), st)"
    by (simp add: create_food_log_def)
next
  assume "filter enforced (food_log_violated pd fp) = []"
  from accepted [OF validate_food_log_nonempty food_log_reports this]
  show "\<exists>entry. validate_food_log pd fp = Inr entry
          \<and> create_food_log pstr pd fp st
              = created (create_document pstr ''foodlog'' (dump_food_log entry) st)"
    by (auto simp: create_food_log_def)
next
  assume "filter enforced (template_violated tp) \<noteq> []"
  from rejected [OF validate_workout_template_nonempty template_reports this]
  show "create_template pstr tp st
        = (Inl (HTTP422 (map in_body (filter enforced (template_violated tp)))), st)"
    by (simp add: create_template_def)
next
  assume "filter enforced (template_violated tp) = []"
  from accepted [OF validate_workout_template_nonempty template_reports this]
  show "\<exists>t. validate_workout_template tp = Inr t
          \<and> create_template pstr tp st
              = created (create_document pstr ''workouttemplate'' (dump_workout_template t) st)"
    by (auto simp: create_template_def)
next
  assume "filter enforced (session_violated pd sp) \<noteq> []"
  from rejected [OF validate_workout_session_nonempty session_reports this]
  show "create_session pstr pd sp st
        = (Inl (HTTP422 (map in_body (filter enforced (session_violated pd sp)))), st)"
    by (simp add: create_session_def)
next
  assume "filter enforced (session_violated pd sp) = []"
  from accepted [OF validate_workout_session_nonempty session_reports this]
  show "\<exists>w. validate_workout_session pd sp = Inr w
          \<and> create_session pstr pd sp st
              = created (create_document pstr ''workoutsession'' (dump_workout_session w) st)"
    by (auto simp: create_session_def)
qed

text \<open>The dates that \<open>iso_date\<close> reads.\<close>

lemma iso_date_examples:
  "iso_date ''2024-05-01'' = Some (IsoDate ''2024-05-01'')"
  "iso_date ''2024-02-29'' = Some (IsoDate ''2024-02-29'')"
  "iso_date ''2023-02-29'' = None"
  "iso_date ''2024-13-45'' = None"
  "iso_date ''tomorrow'' = None"
  by (simp_all add: iso_date_def digit_of_def days_in_month_def)

theorem validation_all_or_nothing_witness:
  "create_food_log (\<lambda>v. ''id0'') iso_date
      \<lparr>in_log_user_id = Given ''u1'', in_log_date = Given ''2024-05-01'',
       in_meal = Absent,
       in_item = Given \<lparr>in_barcode = Absent, in_item_name = Given ''Oat bar'', in_brand = Absent,
                         in_calories = Given 250, in_protein = Absent, in_carbs = Absent,
                         in_fat = Absent, in_serving_size = Absent\<rparr>,
       in_quantity = Given (1 / 20)\<rparr>
      \<lparr>collections = (\<lambda>c. []), next_id = 0\<rparr>
     = (Inl (HTTP422 [([Key ''body'', Key ''quantity''], GreaterThanEqual (1 / 10))]),
        \<lparr>collections = (\<lambda>c. []), next_id = 0\<rparr>)
   \<and> fst (create_food_log (\<lambda>v. ''id0'') iso_date
      \<lparr>in_log_user_id = Given ''u1'', in_log_date = Given ''2024-05-01'',
       in_meal = Absent,
       in_item = Given \<lparr>in_barcode = Absent, in_item_name = Given ''Oat bar'', in_brand = Absent,
                         in_calories = Given 250, in_protein = Absent, in_carbs = Absent,
                         in_fat = Absent, in_serving_size = Absent\<rparr>,
       in_quantity = Given (1 / 10)\<rparr>
      \<lparr>collections = (\<lambda>c. []), next_id = 0\<rparr>)
     = Inr (PDict [(''id'', PStr ''id0'')])
   \<and> create_template (\<lambda>v. ''id0'')
      \<lparr>in_title = Absent, in_description = Absent,
       in_exercises = Given [\<lparr>in_name = Given ''Squat'', in_sets = Given 21, in_reps = Given 6,
                              in_weight = Given (- 1), in_notes = Absent\<rparr>],
       in_level = Absent\<rparr>
      \<lparr>collections = (\<lambda>c. []), next_id = 0\<rparr>
     = (Inl (HTTP422 [([Key ''body'', Key ''title''], Missing),
                      ([Key ''body'', Key ''exercises'', Idx 0, Key ''sets''], LessThanEqual 20),
                      ([Key ''body'', Key ''exercises'', Idx 0, Key ''weight''],
                       GreaterThanEqual 0)]),
        \<lparr>collections = (\<lambda>c. []), next_id = 0\<rparr>)
   \<and> fst (create_template (\<lambda>v. ''id0'')
      \<lparr>in_title = Given ''Leg Day'', in_description = Absent, in_exercises = Absent,
       in_level = Absent\<rparr>
      \<lparr>collections = (\<lambda>c. []), next_id = 0\<rparr>)
     = Inr (PDict [(''id'', PStr ''id0'')])
   \<and> create_session (\<lambda>v. ''id0'') iso_date
      \<lparr>in_user_id = Null, in_session_date = Given ''2024-13-45'',
       in_session_title = Given ''Leg Day'', in_session_exercises = Absent,
       in_session_notes = Absent\<rparr>
      \<lparr>collections = (\<lambda>c. []), next_id = 0\<rparr>
     = (Inl (HTTP422 [([Key ''body'', Key ''user_id''], NoneNotAllowed),
                      ([Key ''body'', Key ''session_date''], DateParsing)]),
        \<lparr>collections = (\<lambda>c. []), next_id = 0\<rparr>)
   \<and> fst (create_session (\<lambda>v. ''id0'') iso_date
      \<lparr>in_user_id = Given ''u1'', in_session_date = Given ''2024-05-01'',
       in_session_title = Given ''Leg Day'', in_session_exercises = Absent,
       in_session_notes = Absent\<rparr>
      \<lparr>collections = (\<lambda>c. []), next_id = 0\<rparr>)
     = Inr (PDict [(''id'', PStr ''id0'')])"
proof -
  have d: "iso_date ''2024-05-01'' = Some (IsoDate ''2024-05-01'')" "iso_date ''2024-13-45'' = None"
    by (simp_all add: iso_date_def digit_of_def days_in_month_def)
  show ?thesis
    using
      validation_all_or_nothing [of iso_date
        "\<lparr>in_log_user_id = Given ''u1'', in_log_date = Given ''2024-05-01'',
         in_meal = Absent,
         in_item = Given \<lparr>in_barcode = Absent, in_item_name = Given ''Oat bar'', in_brand = Absent,
                           in_calories = Given 250, in_protein = Absent, in_carbs = Absent,
                           in_fat = Absent, in_serving_size = Absent\<rparr>,
         in_quantity = Given (1 / 20)\<rparr>"
        "\<lambda>v. ''id0''" "\<lparr>collections = (\<lambda>c. []), next_id = 0\<rparr>"
        "\<lparr>in_title = Absent, in_description = Absent,
         in_exercises = Given [\<lparr>in_name = Given ''Squat'', in_sets = Given 21, in_reps = Given 6,
                                in_weight = Given (- 1), in_notes = Absent\<rparr>],
         in_level = Absent\<rparr>"
        "\<lparr>in_user_id = Null, in_session_date = Given ''2024-13-45'',
         in_session_title = Given ''Leg Day'', in_session_exercises = Absent,
         in_session_notes = Absent\<rparr>"]
      validation_all_or_nothing [of iso_date
        "\<lparr>in_log_user_id = Given ''u1'', in_log_date = Given ''2024-05-01'',
         in_meal = Absent,
         in_item = Given \<lparr>in_barcode = Absent, in_item_name = Given ''Oat bar'', in_brand = Absent,
                           in_calories = Given 250, in_protein = Absent, in_carbs = Absent,
                           in_fat = Absent, in_serving_size = Absent\<rparr>,
         in_quantity = Given (1 / 10)\<rparr>"
        "\<lambda>v. ''id0''" "\<lparr>collections = (\<lambda>c. []), next_id = 0\<rparr>"
        "\<lparr>in_title = Given ''Leg Day'', in_description = Absent, in_exercises = Absent,
         in_level = Absent\<rparr>"
        "\<lparr>in_user_id = Given ''u1'', in_session_date = Given ''2024-05-01'',
         in_session_title = Given ''Leg Day'', in_session_exercises = Absent,
         in_session_notes = Absent\<rparr>"]
    by (simp add: d in_body_def
        create_food_log_def create_template_def create_session_def created_def
        create_document_def date_field_def
        validate_food_log_def validate_food_item_def food_item_field_def
        validate_workout_template_def validate_workout_session_def exercise_list_def
        validate_exercise_def with_field_def required_def optional_def defaulted_def
        check_int_def check_float_def unconstrained_def errors_of_def)
qed

text \<open>
  A template whose only exercise has the empty name violates the constraint that the
  name of an exercise is non-empty text; it is accepted, and stored.
\<close>

theorem empty_name_accepted_counterexample:
  "template_violated
      \<lparr>in_title = Given ''Leg Day'', in_description = Absent,
       in_exercises = Given [\<lparr>in_name = Given [], in_sets = Given 4, in_reps = Given 6,
                              in_weight = Absent, in_notes = Absent\<rparr>],
       in_level = Absent\<rparr>
     = [([Key ''exercises'', Idx 0, Key ''name''], EmptyText)]
   \<and> fst (create_template (\<lambda>v. ''id0'')
      \<lparr>in_title = Given ''Leg Day'', in_description = Absent,
       in_exercises = Given [\<lparr>in_name = Given [], in_sets = Given 4, in_reps = Given 6,
                              in_weight = Absent, in_notes = Absent\<rparr>],
       in_level = Absent\<rparr>
      \<lparr>collections = (\<lambda>c. []), next_id = 0\<rparr>)
     = Inr (PDict [(''id'', PStr ''id0'')])
   \<and> collections (snd (create_template (\<lambda>v. ''id0'')
      \<lparr>in_title = Given ''Leg Day'', in_description = Absent,
       in_exercises = Given [\<lparr>in_name = Given [], in_sets = Given 4, in_reps = Given 6,
                              in_weight = Absent, in_notes = Absent\<rparr>],
       in_level = Absent\<rparr>
      \<lparr>collections = (\<lambda>c. []), next_id = 0\<rparr>)) ''workouttemplate''
     = [[(''_id'', PObjectId 0), (''title'', PStr ''Leg Day''), (''description'', PNone),
         (''exercises'',
          PList [PDict [(''name'', PStr []), (''sets'', PInt 4), (''reps'', PInt 6),
                        (''weight'', PNone), (''notes'', PNone)]]),
         (''level'', PNone)]]"
  by (simp add: template_violated_def exercise_list_violated_def exercise_violated_def
        lacking_def null_given_def int_outside_def float_below_def empty_text_def
        create_template_def created_def create_document_def
        validate_workout_template_def exercise_list_def validate_exercise_def
        with_field_def required_def optional_def check_int_def check_float_def
        unconstrained_def errors_of_def
        dump_workout_template_def dump_exercise_def dump_opt_def)

section \<open>Properties of the session listing\<close>

lemma limit_query_cases:
  "limit_query None = Inr 50"
  "1 \<le> n \<Longrightarrow> n \<le> 200 \<Longrightarrow> limit_query (Some n) = Inr n"
  "n < 1 \<Longrightarrow> limit_query (Some n) = Inl [([Key ''query'', Key ''limit''], GreaterThanEqual 1)]"
  "200 < n \<Longrightarrow> limit_query (Some n) = Inl [([Key ''query'', Key ''limit''], LessThanEqual 200)]"
  by (simp_all add: limit_query_def check_int_def)

lemma public_docs_user:
  assumes "d \<in> set (public_docs pstr docs)"
      and "list_all (\<lambda>x. map_of x ''user_id'' = Some (PStr u)) docs"
  shows "field_of d ''user_id'' = Some (PStr u)"
proof -
  from assms(1) obtain x where x: "x \<in> set docs" "d = to_public pstr (Some x)"
    by (auto simp: public_docs_def)
  from assms(2) x(1) have "map_of x ''user_id'' = Some (PStr u)"
    by (simp add: list_all_iff)
  then show ?thesis
    using x(2) to_public_frame [of "''user_id''" pstr "Some x"]
    by (simp add: field_of_def)
qed

lemma matches_user:
  "matches (Fields [(''user_id'', Eq (PStr u))]) = (\<lambda>x. map_of x ''user_id'' = Some (PStr u))"
  by (rule ext) simp

lemma sessions_found:
  "1 \<le> n \<Longrightarrow> n \<le> 200 \<Longrightarrow>
   list_sessions pstr u (Some n) st =
     Inr (public_docs pstr
       (take (nat n) (filter (\<lambda>x. map_of x ''user_id'' = Some (PStr u))
          (collections st ''workoutsession''))))"
  by (simp add: list_sessions_def limit_query_cases get_documents_def matches_user)

text \<open>
  C4, as amended. In the session listing an absent \<open>limit\<close> stands for 50; a limit
  in [1, 200] is used as it is, and the answer holds at most that many documents, each
  with the \<open>user_id\<close> asked for; a limit below 1 or above 200 is rejected with a
  status 422 that names the bound, and no document is returned.
\<close>

theorem list_sessions_limit:
  "list_sessions pstr u None st = list_sessions pstr u (Some 50) st
   \<and> (1 \<le> n \<and> n \<le> 200 \<longrightarrow>
        (\<exists>docs. list_sessions pstr u (Some n) st = Inr docs
            \<and> int (length docs) \<le> n
            \<and> (\<forall>d \<in> set docs. field_of d ''user_id'' = Some (PStr u))))
   \<and> (n < 1 \<longrightarrow>
        list_sessions pstr u (Some n) st
          = Inl (HTTP422 [([Key ''query'', Key ''limit''], GreaterThanEqual 1)]))
   \<and> (200 < n \<longrightarrow>
        list_sessions pstr u (Some n) st
          = Inl (HTTP422 [([Key ''query'', Key ''limit''], LessThanEqual 200)]))"
proof (intro conjI impI)
  show "list_sessions pstr u None st = list_sessions pstr u (Some 50) st"
    by (simp add: list_sessions_def limit_query_cases)
next
  assume r: "1 \<le> n \<and> n \<le> 200"
  let ?found = "take (nat n) (filter (\<lambda>x. map_of x ''user_id'' = Some (PStr u))
          (collections st ''workoutsession''))"
  have e: "list_sessions pstr u (Some n) st = Inr (public_docs pstr ?found)"
    using r by (simp add: sessions_found)
  have "length ?found \<le> nat n"
    by simp
  then have l: "int (length (public_docs pstr ?found)) \<le> n"
    using r unfolding public_docs_def length_map by linarith
  have "list_all (\<lambda>x. map_of x ''user_id'' = Some (PStr u)) ?found"
    by (auto simp: list_all_iff dest: in_set_takeD)
  then have m: "\<forall>d \<in> set (public_docs pstr ?found). field_of d ''user_id'' = Some (PStr u)"
    using public_docs_user by blast
  from e l m show "\<exists>docs. list_sessions pstr u (Some n) st = Inr docs
            \<and> int (length docs) \<le> n
            \<and> (\<forall>d \<in> set docs. field_of d ''user_id'' = Some (PStr u))"
    by blast
next
  assume "n < 1"
  then show "list_sessions pstr u (Some n) st
          = Inl (HTTP422 [([Key ''query'', Key ''limit''], GreaterThanEqual 1)])"
    by (simp add: list_sessions_def limit_query_cases)
next
  assume "200 < n"
  then show "list_sessions pstr u (Some n) st
          = Inl (HTTP422 [([Key ''query'', Key ''limit''], LessThanEqual 200)])"
    by (simp add: list_sessions_def limit_query_cases)
qed

theorem list_sessions_limit_witness:
  "list_sessions (\<lambda>v. ''id0'') ''u1'' (Some 1)
      \<lparr>collections = (\<lambda>c. if c = ''workoutsession''
          then [[(''_id'', PObjectId 0), (''user_id'', PStr ''u1''), (''title'', PStr ''A'')],
                [(''_id'', PObjectId 1), (''user_id'', PStr ''u2''), (''title'', PStr ''B'')],
                [(''_id'', PObjectId 2), (''user_id'', PStr ''u1''), (''title'', PStr ''C'')]]
          else []), next_id = 3\<rparr>
     = Inr [Some [(''user_id'', PStr ''u1''), (''title'', PStr ''A''), (''id'', PStr ''id0'')]]
   \<and> list_sessions (\<lambda>v. ''id0'') ''u1'' (Some 0)
      \<lparr>collections = (\<lambda>c. if c = ''workoutsession''
          then [[(''_id'', PObjectId 0), (''user_id'', PStr ''u1''), (''title'', PStr ''A'')],
                [(''_id'', PObjectId 1), (''user_id'', PStr ''u2''), (''title'', PStr ''B'')],
                [(''_id'', PObjectId 2), (''user_id'', PStr ''u1''), (''title'', PStr ''C'')]]
          else []), next_id = 3\<rparr>
     = Inl (HTTP422 [([Key ''query'', Key ''limit''], GreaterThanEqual 1)])
   \<and> list_sessions (\<lambda>v. ''id0'') ''u1'' (Some 201)
      \<lparr>collections = (\<lambda>c. if c = ''workoutsession''
          then [[(''_id'', PObjectId 0), (''user_id'', PStr ''u1''), (''title'', PStr ''A'')],
                [(''_id'', PObjectId 1), (''user_id'', PStr ''u2''), (''title'', PStr ''B'')],
                [(''_id'', PObjectId 2), (''user_id'', PStr ''u1''), (''title'', PStr ''C'')]]
          else []), next_id = 3\<rparr>
     = Inl (HTTP422 [([Key ''query'', Key ''limit''], LessThanEqual 200)])"
proof -
  let ?st = "\<lparr>collections = (\<lambda>c. if c = ''workoutsession''
          then [[(''_id'', PObjectId 0), (''user_id'', PStr ''u1''), (''title'', PStr ''A'')],
                [(''_id'', PObjectId 1), (''user_id'', PStr ''u2''), (''title'', PStr ''B'')],
                [(''_id'', PObjectId 2), (''user_id'', PStr ''u1''), (''title'', PStr ''C'')]]
          else []), next_id = 3\<rparr>"
  have a: "list_sessions (\<lambda>v. ''id0'') ''u1'' (Some 1) ?st
      = Inr [Some [(''user_id'', PStr ''u1''), (''title'', PStr ''A''), (''id'', PStr ''id0'')]]"
    by (simp add: list_sessions_def limit_query_def check_int_def get_documents_def
          public_docs_def to_public_def)
  show ?thesis
    using a
      list_sessions_limit [of "\<lambda>v. ''id0''" "''u1''" ?st 1]
      list_sessions_limit [of "\<lambda>v. ''id0''" "''u1''" ?st 0]
      list_sessions_limit [of "\<lambda>v. ''id0''" "''u1''" ?st 201]
    by simp
qed

theorem list_sessions_rejects_counterexample:
  "list_sessions (\<lambda>v. ''id0'') ''u1'' (Some 500)
      \<lparr>collections = (\<lambda>c. if c = ''workoutsession''
          then [[(''_id'', PObjectId 0), (''user_id'', PStr ''u1''), (''title'', PStr ''A'')]]
          else []), next_id = 1\<rparr>
     = Inl (HTTP422 [([Key ''query'', Key ''limit''], LessThanEqual 200)])
   \<and> list_sessions (\<lambda>v. ''id0'') ''u1'' (Some 200)
      \<lparr>collections = (\<lambda>c. if c = ''workoutsession''
          then [[(''_id'', PObjectId 0), (''user_id'', PStr ''u1''), (''title'', PStr ''A'')]]
          else []), next_id = 1\<rparr>
     = Inr [Some [(''user_id'', PStr ''u1''), (''title'', PStr ''A''), (''id'', PStr ''id0'')]]"
  by (simp add: list_sessions_def limit_query_def check_int_def get_documents_def
        public_docs_def to_public_def)

section \<open>Properties of the seeding\<close>

lemma prebuilt_count: "length PREBUILT_TEMPLATES = 3"
  by (simp add: PREBUILT_TEMPLATES_def)

lemma prebuilt_validated:
  "map validate_workout_template prebuilt_payloads = map Inr PREBUILT_TEMPLATES"
  by (simp add: prebuilt_payloads_def PREBUILT_TEMPLATES_def validate_workout_template_def
        exercise_list_def validate_exercise_def ex_payload_def ex_model_def with_field_def
        required_def optional_def check_int_def check_float_def unconstrained_def)

text \<open>
  The loop itself, once reached with a connected store, inserts every template in
  order and fails nowhere.
\<close>

lemma insert_all_connected:
  "\<exists>st'. insert_all pstr coll ts (Database st) = (None, Database st')
      \<and> next_id st' = next_id st + length ts
      \<and> collections st' =
          (collections st)(coll := collections st coll
             @ map2 (\<lambda>i t. (''_id'', PObjectId i) # dump_workout_template t)
                 [next_id st ..< next_id st + length ts] ts)"
proof (induction ts arbitrary: st)
  case Nil
  then show ?case by simp
next
  case (Cons t ts)
  let ?st1 = "snd (create_document pstr coll (dump_workout_template t) st)"
  from Cons.IH [of ?st1] obtain st' where
    st': "insert_all pstr coll ts (Database ?st1) = (None, Database st')"
      "next_id st' = next_id ?st1 + length ts"
      "collections st' =
          (collections ?st1)(coll := collections ?st1 coll
             @ map2 (\<lambda>i t. (''_id'', PObjectId i) # dump_workout_template t)
                 [next_id ?st1 ..< next_id ?st1 + length ts] ts)"
    by blast
  have "insert_all pstr coll (t # ts) (Database st) = (None, Database st')"
    using st'(1) by simp
  moreover have "next_id st' = next_id st + length (t # ts)"
    using st'(2) by (simp add: create_document_def Let_def)
  moreover have "collections st' =
          (collections st)(coll := collections st coll
             @ map2 (\<lambda>i t. (''_id'', PObjectId i) # dump_workout_template t)
                 [next_id st ..< next_id st + length (t # ts)] (t # ts))"
    using st'(3) by (simp add: create_document_def Let_def upt_conv_Cons del: upt_Suc)
  ultimately show ?case by blast
qed

text \<open>
  C5. Seeding never gets as far as counting or inserting. With a connected store,
  whatever it holds, the truth test \<open>if db\<close> of line 134 raises
  \<open>NotImplementedError\<close>: the answer is a status 500 and the store is unchanged, so
  that against an empty template collection no document is inserted and
  \<open>{"seeded": 3}\<close> is not returned, and against a non-empty one \<open>{"seeded": 0}\<close> is
  not returned. Without a store the count is taken to be 0 and the first insertion
  fails.
\<close>

theorem seed_templates_truth_test_raises:
  "seed_templates pstr (Database st) = (Inl (HTTP500 NotImplementedError), Database st)
   \<and> seed_templates pstr NoDatabase = (Inl (HTTP500 StoreError), NoDatabase)"
  by (simp add: seed_templates_def then_exn_def PREBUILT_TEMPLATES_def)

end
